theory Spec2Isabelle
  imports Complex_Main
begin

section \<open>The lane runner of \<^verbatim>\<open>src/game.js\<close>\<close>

text \<open>
  The game is one JavaScript module whose state is a set of global variables, mutated by
  the frame callback \<^verbatim>\<open>animate\<close>, by input handlers and by \<^verbatim>\<open>setTimeout\<close>
  callbacks. The embedding keeps the globals in one record, passes it through every
  function, and keeps the source's names. JavaScript numbers are modelled as \<open>real\<close>
  (ideal arithmetic, no rounding); counters that only hold integers are \<open>int\<close> or
  \<open>nat\<close>. What only feeds the renderer (road chunks, snow particles, materials other
  than the colour a shatter copies, the bloom composer) is left out. The repository's
  second file is a variant of the same module with other constants and obstacle shapes;
  the functions modelled here read the same in both, and the constants and meshes are
  those of \<^verbatim>\<open>src/game.js\<close>.
\<close>

subsection \<open>Constants\<close>

definition LANE_WIDTH :: real where "LANE_WIDTH = 5"
definition LANES :: "real list" where "LANES = [- LANE_WIDTH, 0, LANE_WIDTH]"
definition PLAYER_RUN_HEIGHT :: real where "PLAYER_RUN_HEIGHT = 1.5"
definition JUMP_HEIGHT :: real where "JUMP_HEIGHT = 4.5"
definition JUMP_DURATION :: real where "JUMP_DURATION = 0.5"
definition SLIDE_HEIGHT :: real where "SLIDE_HEIGHT = 0.5"
definition COLLISION_SLIDE_HEIGHT :: real where "COLLISION_SLIDE_HEIGHT = 1"
definition RUN_SPEED_BASE :: real where "RUN_SPEED_BASE = 15"
definition RUN_SPEED_INCREASE :: real where "RUN_SPEED_INCREASE = 0.5"
definition OBSTACLE_SPAWN_Z :: real where "OBSTACLE_SPAWN_Z = - 200"
definition OBSTACLE_CULL_Z :: real where "OBSTACLE_CULL_Z = 10"
definition PHASE_DURATION_SCORE :: real where "PHASE_DURATION_SCORE = 450"

subsection \<open>Vectors and boxes of the rendering library\<close>

record vector3 =
  vx :: real
  vy :: real
  vz :: real

definition Vector3 :: "real \<Rightarrow> real \<Rightarrow> real \<Rightarrow> vector3" where
  "Vector3 a b c = \<lparr>vx = a, vy = b, vz = c\<rparr>"

record box3 =
  bmin :: vector3
  bmax :: vector3

text \<open>
  Modelled from the spec: \<^verbatim>\<open>THREE.Box3\<close> belongs to the rendering library, which is
  not part of the repository. The spec describes the test as "axis-aligned overlap on
  all three axes"; the box around a centre extends half the size to each side, and two
  boxes that only touch do intersect.
\<close>

definition setFromCenterAndSize :: "vector3 \<Rightarrow> vector3 \<Rightarrow> box3" where
  "setFromCenterAndSize c sz =
     \<lparr>bmin = Vector3 (vx c - vx sz / 2) (vy c - vy sz / 2) (vz c - vz sz / 2),
      bmax = Vector3 (vx c + vx sz / 2) (vy c + vy sz / 2) (vz c + vz sz / 2)\<rparr>"

definition intersectsBox :: "box3 \<Rightarrow> box3 \<Rightarrow> bool" where
  "intersectsBox this box \<longleftrightarrow>
     vx (bmax box) \<ge> vx (bmin this) \<and> vx (bmin box) \<le> vx (bmax this) \<and>
     vy (bmax box) \<ge> vy (bmin this) \<and> vy (bmin box) \<le> vy (bmax this) \<and>
     vz (bmax box) \<ge> vz (bmin this) \<and> vz (bmin box) \<le> vz (bmax this)"

subsection \<open>Progression stages\<close>

datatype stage_type = warmup | jump_only | slide_only | dodge_only | punch_only | full_combo

record stage =
  distance :: real
  type :: stage_type
  interval :: real

definition PROGRESSION_STAGES :: "stage list" where
  "PROGRESSION_STAGES =
     [\<lparr>distance = 0, type = warmup, interval = 40\<rparr>,
      \<lparr>distance = PHASE_DURATION_SCORE * 1, type = jump_only, interval = 30\<rparr>,
      \<lparr>distance = PHASE_DURATION_SCORE * 2, type = slide_only, interval = 30\<rparr>,
      \<lparr>distance = PHASE_DURATION_SCORE * 3, type = dodge_only, interval = 25\<rparr>,
      \<lparr>distance = PHASE_DURATION_SCORE * 4, type = punch_only, interval = 30\<rparr>,
      \<lparr>distance = PHASE_DURATION_SCORE * 5, type = full_combo, interval = 20\<rparr>]"

record progression_manager =
  currentStageIndex :: nat
  currentStage :: stage

text \<open>The constructor of \<^verbatim>\<open>ProgressionManager\<close>.\<close>

definition new_ProgressionManager :: progression_manager where
  "new_ProgressionManager =
     \<lparr>currentStageIndex = 0, currentStage = PROGRESSION_STAGES ! 0\<rparr>"

text \<open>
  \<^verbatim>\<open>ProgressionManager.update(score)\<close>. The source's \<^verbatim>\<open>&&\<close> reads the next
  stage only when the index is below the last one, so the list is never read out of
  range; the nested \<open>if\<close> keeps that order.
\<close>

definition update :: "real \<Rightarrow> progression_manager \<Rightarrow> progression_manager" where
  "update sc pm =
     (if currentStageIndex pm < length PROGRESSION_STAGES - 1
      then (if sc \<ge> distance (PROGRESSION_STAGES ! (currentStageIndex pm + 1))
            then \<lparr>currentStageIndex = currentStageIndex pm + 1,
                  currentStage = PROGRESSION_STAGES ! (currentStageIndex pm + 1)\<rparr>
            else pm)
      else pm)"

definition getStage :: "progression_manager \<Rightarrow> stage" where
  "getStage pm = currentStage pm"

text \<open>
  A sequence of calls of \<^verbatim>\<open>update\<close>, one score per call: the list of the stage
  indices after each call.
\<close>

fun update_trace :: "progression_manager \<Rightarrow> real list \<Rightarrow> nat list" where
  "update_trace pm [] = []"
| "update_trace pm (sc # scs) =
     currentStageIndex (update sc pm) # update_trace (update sc pm) scs"

text \<open>Adjacent elements of a list of indices never fall and never rise by more than one.\<close>

fun steps_by_at_most_one :: "nat \<Rightarrow> nat list \<Rightarrow> bool" where
  "steps_by_at_most_one i [] = True"
| "steps_by_at_most_one i (j # js) = (i \<le> j \<and> j \<le> i + 1 \<and> steps_by_at_most_one j js)"

subsection \<open>Obstacles and debris\<close>

datatype obstacle_type = Jump | Slide | Wall | Breakable

text \<open>
  An obstacle is a mesh: its position, the width, height and depth of its box geometry,
  the colour of its material, its \<^verbatim>\<open>userData\<close>, and whether it hangs in the scene
  (\<^verbatim>\<open>scene.add\<close> and \<^verbatim>\<open>scene.remove\<close> set and clear \<open>in_scene\<close>).
\<close>

record obstacle =
  position :: vector3
  geometry :: vector3
  color :: nat
  obstacleType :: obstacle_type
  isBreakable :: bool
  collided :: bool
  in_scene :: bool

text \<open>
  Modelled from the spec: \<^verbatim>\<open>Box3.setFromObject\<close> of the rendering library, for the
  unrotated box meshes that \<^verbatim>\<open>createObstacle\<close> builds: the obstacle's collision
  volume "from its kind/position" is the box of its geometry around its position.
\<close>

definition setFromObject :: "obstacle \<Rightarrow> box3" where
  "setFromObject ob = setFromCenterAndSize (position ob) (geometry ob)"

text \<open>
  A debris burst is a \<^verbatim>\<open>THREE.Points\<close> object: fifty particle positions and
  velocities, a time to live, the opacity and colour of its material and the
  \<open>z\<close> of the object itself.
\<close>

record debris =
  positions :: "vector3 list"
  velocities :: "vector3 list"
  ttl :: real
  opacity :: real
  debris_color :: nat
  debris_z :: real
  debris_in_scene :: bool

subsection \<open>The environment: wall clock, random numbers, timers\<close>

text \<open>
  \<^verbatim>\<open>Math.random()\<close> returns a number in \<open>[0, 1)\<close>, so its results have a type of
  their own. The random numbers of a run are a stream that the state carries
  (\<open>rand_src\<close>), read at \<open>rand_pos\<close>.
\<close>

typedef unit_random = "{r::real. 0 \<le> r \<and> r < 1}"
  by (rule exI [of _ 0]) simp

text \<open>
  Modelled from the spec: \<^verbatim>\<open>THREE.Clock\<close> belongs to the rendering library. The
  spec's tick is "given a real elapsed-time delta" and keeps an \<open>elapsedTime\<close>: the
  clock reads the wall clock (milliseconds), \<^verbatim>\<open>getDelta\<close> returns the seconds since
  it was last read and adds them to \<open>elapsedTime\<close>, and \<^verbatim>\<open>getElapsedTime\<close> reads
  the clock the same way before it returns \<open>elapsedTime\<close>.
\<close>

record clock =
  autoStart :: bool
  startTime :: real
  oldTime :: real
  elapsedTime :: real
  running :: bool

definition new_Clock :: clock where
  "new_Clock = \<lparr>autoStart = True, startTime = 0, oldTime = 0, elapsedTime = 0, running = False\<rparr>"

text \<open>The callbacks that the source hands to \<^verbatim>\<open>setTimeout\<close>.\<close>

datatype timer_callback = SlideEnd | PunchEnd | CameraRestore real

datatype final_score_text = NoText | FinalScore int | PressResume

subsection \<open>The global state\<close>

record game =
  now :: real
  rand_src :: "nat \<Rightarrow> unit_random"
  rand_pos :: nat
  timers :: "(real \<times> timer_callback) list"
  frame_requested :: bool
  clock :: clock
  isPaused :: bool
  isGameOver :: bool
  currentLane :: int
  isJumping :: bool
  jumpStartTime :: real
  isSliding :: bool
  slideStartTime :: real
  isPunching :: bool
  punchStartTime :: real
  score :: real
  currentSpeed :: real
  obstacles :: "obstacle list"
  debrisParticles :: "debris list"
  timeSinceLastObstacle :: real
  progressionManager :: progression_manager
  camera_position :: vector3
  score_counter :: int
  final_score :: final_score_text
  game_over_screen_hidden :: bool

text \<open>
  The fields \<open>now\<close>, \<open>rand_src\<close>, \<open>rand_pos\<close>, \<open>timers\<close> and \<open>frame_requested\<close>
  are the browser: the wall clock in milliseconds, the random stream, the pending
  \<^verbatim>\<open>setTimeout\<close> callbacks with their due times, and whether a frame requested by
  \<^verbatim>\<open>requestAnimationFrame\<close> is pending (\<^verbatim>\<open>gameLoopId\<close>). The last three fields
  are the page: the number shown by \<^verbatim>\<open>score-counter\<close>, the text of
  \<^verbatim>\<open>final-score\<close>, and whether the game-over screen is hidden.
\<close>

definition Math_random :: "game \<Rightarrow> real \<times> game" where
  "Math_random s = (Rep_unit_random (rand_src s (rand_pos s)), s\<lparr>rand_pos := rand_pos s + 1\<rparr>)"

definition setTimeout :: "timer_callback \<Rightarrow> real \<Rightarrow> game \<Rightarrow> game" where
  "setTimeout cb ms s = s\<lparr>timers := timers s @ [(now s + ms, cb)]\<rparr>"

definition clock_start :: "game \<Rightarrow> game" where
  "clock_start s =
     s\<lparr>clock := (clock s)\<lparr>startTime := now s, oldTime := now s, elapsedTime := 0, running := True\<rparr>\<rparr>"

definition getDelta :: "game \<Rightarrow> real \<times> game" where
  "getDelta s =
     (if autoStart (clock s) \<and> \<not> running (clock s) then (0, clock_start s)
      else if running (clock s) then
        (let diff = (now s - oldTime (clock s)) / 1000
         in (diff, s\<lparr>clock := (clock s)\<lparr>oldTime := now s,
                                        elapsedTime := elapsedTime (clock s) + diff\<rparr>\<rparr>))
      else (0, s))"

definition getElapsedTime :: "game \<Rightarrow> real \<times> game" where
  "getElapsedTime s = (let (d, s1) = getDelta s in (elapsedTime (clock s1), s1))"

subsection \<open>Timer callbacks and the passing of time\<close>

definition run_callback :: "timer_callback \<Rightarrow> game \<Rightarrow> game" where
  "run_callback cb s =
     (case cb of
        SlideEnd \<Rightarrow> s\<lparr>isSliding := False\<rparr>
      | PunchEnd \<Rightarrow> s\<lparr>isPunching := False\<rparr>
      | CameraRestore initialY \<Rightarrow> s\<lparr>camera_position := (camera_position s)\<lparr>vy := initialY\<rparr>\<rparr>)"

text \<open>
  \<open>elapse ms\<close> lets \<open>ms\<close> milliseconds of real time pass between two events: the
  timers that have come due fire in the order of their due times (registration order
  among equals), whatever the state of the game is. None of the callbacks looks at
  \<open>isPaused\<close>.
\<close>

definition is_due :: "real \<Rightarrow> real \<times> timer_callback \<Rightarrow> bool" where
  "is_due t tm = (fst tm \<le> t)"

definition fire_timers :: "game \<Rightarrow> game" where
  "fire_timers s =
     foldl (\<lambda>s' tm. run_callback (snd tm) s')
       (s\<lparr>timers := filter (\<lambda>tm. \<not> is_due (now s) tm) (timers s)\<rparr>)
       (sort_key fst (filter (is_due (now s)) (timers s)))"

definition elapse :: "real \<Rightarrow> game \<Rightarrow> game" where
  "elapse ms s = fire_timers (s\<lparr>now := now s + ms\<rparr>)"

subsection \<open>Session control\<close>

definition gameOver :: "game \<Rightarrow> game" where
  "gameOver s =
     s\<lparr>isGameOver := True, frame_requested := False,
       final_score := FinalScore \<lfloor>score s\<rfloor>, game_over_screen_hidden := False\<rparr>"

subsection \<open>Obstacle management\<close>

text \<open>
  \<^verbatim>\<open>createObstacle(lane, type)\<close>: the mesh it builds, and the push onto the array
  (with the mesh added to the scene).
\<close>

definition new_mesh :: "nat \<Rightarrow> obstacle_type \<Rightarrow> obstacle" where
  "new_mesh lane ty =
     (let (geo, col, height, brk) =
            (case ty of
               Jump \<Rightarrow> (Vector3 (LANE_WIDTH * 0.8) 1 1, 16711680::nat, 0.5::real, False)
             | Slide \<Rightarrow> (Vector3 (LANE_WIDTH * 0.8) 1 1, 34816, PLAYER_RUN_HEIGHT + 0.5, False)
             | Wall \<Rightarrow> (Vector3 (LANE_WIDTH * 0.8) 1.5 1, 14540287, 0.75, False)
             | Breakable \<Rightarrow> (Vector3 (LANE_WIDTH * 0.8) 2.5 1, 8965324, 1.25, True))
      in \<lparr>position = Vector3 (LANES ! lane) height OBSTACLE_SPAWN_Z,
          geometry = geo, color = col, obstacleType = ty, isBreakable = brk,
          collided = False, in_scene = True\<rparr>)"

definition createObstacle :: "nat \<Rightarrow> obstacle_type \<Rightarrow> game \<Rightarrow> game" where
  "createObstacle lane ty s = s\<lparr>obstacles := obstacles s @ [new_mesh lane ty]\<rparr>"

definition allTypes :: "obstacle_type list" where
  "allTypes = [Jump, Slide, Wall, Breakable]"

text \<open>
  \<^verbatim>\<open>getObstacleTypeForStage\<close>: \<open>None\<close> is the source's \<^verbatim>\<open>null\<close>. The index
  \<open>\<lfloor>r * 4\<rfloor>\<close> is within \<open>allTypes\<close> because \<open>0 \<le> r < 1\<close>.
\<close>

definition getObstacleTypeForStage :: "stage_type \<Rightarrow> game \<Rightarrow> obstacle_type list option \<times> game" where
  "getObstacleTypeForStage stageType s =
     (case stageType of
        warmup \<Rightarrow> (None, s)
      | jump_only \<Rightarrow> (Some [Jump], s)
      | slide_only \<Rightarrow> (Some [Slide], s)
      | dodge_only \<Rightarrow> (Some [Wall], s)
      | punch_only \<Rightarrow> (Some [Breakable], s)
      | full_combo \<Rightarrow>
          (let (r, s1) = Math_random s
           in (Some [allTypes ! nat \<lfloor>r * real (length allTypes)\<rfloor>], s1)))"

definition laneOptions :: "nat list" where
  "laneOptions = [0, 1, 2]"

text \<open>
  The lanes of one spawn event: the source's \<^verbatim>\<open>numObstacles\<close> and
  \<^verbatim>\<open>blockedLanes\<close>, with the random numbers they draw.
\<close>

definition choose_numObstacles :: "stage_type \<Rightarrow> game \<Rightarrow> nat \<times> game" where
  "choose_numObstacles stageType s =
     (if stageType = full_combo \<or> stageType = dodge_only
      then (let (r, s1) = Math_random s in (if r < 0.6 then 1 else 2, s1))
      else (1, s))"

definition choose_blockedLanes :: "nat \<Rightarrow> game \<Rightarrow> nat list \<times> game" where
  "choose_blockedLanes numObstacles s =
     (let (r, s1) = Math_random s
      in if numObstacles = 2
         then (let laneToKeepOpen = laneOptions ! nat \<lfloor>r * 3\<rfloor>
               in (filter (\<lambda>l. l \<noteq> laneToKeepOpen) laneOptions, s1))
         else ([laneOptions ! nat \<lfloor>r * 3\<rfloor>], s1))"

text \<open>
  \<^verbatim>\<open>generateObstacles(delta)\<close>. The quotient \<open>interval / currentSpeed\<close> is the
  source's as long as \<open>currentSpeed\<close> is not zero (JavaScript divides by zero to
  infinity, HOL to zero); \<open>animate\<close> sets the speed to at least \<open>RUN_SPEED_BASE\<close>
  before it calls this function.
\<close>

definition spawn :: "stage_type \<Rightarrow> obstacle_type list \<Rightarrow> game \<Rightarrow> game" where
  "spawn stageType allowedTypes s =
     (let (numObstacles, s1) = choose_numObstacles stageType s;
          (blockedLanes, s2) = choose_blockedLanes numObstacles s1;
          (r, s3) = Math_random s2;
          typeToSpawn = allowedTypes ! nat \<lfloor>r * real (length allowedTypes)\<rfloor>
      in fold (\<lambda>lane. createObstacle lane typeToSpawn) blockedLanes s3)"

definition generateObstacles :: "real \<Rightarrow> game \<Rightarrow> game" where
  "generateObstacles delta s =
     (let currentStage = getStage (progressionManager s);
          (allowedTypes, s1) = getObstacleTypeForStage (type currentStage) s
      in case allowedTypes of
           None \<Rightarrow> s1
         | Some allowed \<Rightarrow>
             (let spawnIntervalTime = interval currentStage / currentSpeed s1;
                  s2 = s1\<lparr>timeSinceLastObstacle := timeSinceLastObstacle s1 + delta\<rparr>
              in if timeSinceLastObstacle s2 < spawnIntervalTime then s2
                 else spawn (type currentStage) allowed (s2\<lparr>timeSinceLastObstacle := 0\<rparr>)))"

subsection \<open>Player actions\<close>

definition jump :: "game \<Rightarrow> game" where
  "jump s =
     (if isJumping s \<or> isSliding s \<or> isGameOver s then s
      else (let (e, s1) = getElapsedTime (s\<lparr>isJumping := True\<rparr>) in s1\<lparr>jumpStartTime := e\<rparr>))"

definition slide :: "game \<Rightarrow> game" where
  "slide s =
     (if isJumping s \<or> isSliding s \<or> isGameOver s then s
      else (let (e, s1) = getElapsedTime (s\<lparr>isSliding := True\<rparr>)
            in setTimeout SlideEnd 1000 (s1\<lparr>slideStartTime := e\<rparr>)))"

definition punch :: "game \<Rightarrow> game" where
  "punch s =
     (if isPunching s \<or> isGameOver s then s
      else (let (e, s1) = getElapsedTime (s\<lparr>isPunching := True\<rparr>)
            in setTimeout PunchEnd 300 (s1\<lparr>punchStartTime := e\<rparr>)))"

definition moveLane :: "int \<Rightarrow> game \<Rightarrow> game" where
  "moveLane direction s =
     (if isJumping s \<or> isGameOver s then s
      else s\<lparr>currentLane := max 0 (min 2 (currentLane s + direction))\<rparr>)"

subsection \<open>Collisions\<close>

text \<open>
  The fifty velocities of a burst: three random numbers each, drawn in the order of the
  source's \<^verbatim>\<open>velocities.push\<close>.
\<close>

fun shatter_velocities :: "nat \<Rightarrow> game \<Rightarrow> vector3 list \<times> game" where
  "shatter_velocities 0 s = ([], s)"
| "shatter_velocities (Suc n) s =
     (let (r1, s1) = Math_random s;
          (r2, s2) = Math_random s1;
          (r3, s3) = Math_random s2;
          (vs, s4) = shatter_velocities n s3
      in (Vector3 ((r1 - 0.5) * 5) (r2 * 5 + 2) ((r3 - 0.5) * 5) # vs, s4))"

text \<open>
  \<^verbatim>\<open>shatterWall(wall)\<close> changes the wall object and the globals: it returns both.
  The wall leaves the scene and is marked collided; the array \<^verbatim>\<open>obstacles\<close> is not
  touched. The camera is lifted by \<open>0.5\<close> and a timer restores it after 100 ms.
\<close>

definition shatterWall :: "obstacle \<Rightarrow> game \<Rightarrow> obstacle \<times> game" where
  "shatterWall wall s =
     (let wall1 = wall\<lparr>in_scene := False, collided := True\<rparr>;
          initialY = vy (camera_position s);
          s1 = s\<lparr>camera_position := (camera_position s)\<lparr>vy := initialY + 0.5\<rparr>\<rparr>;
          s2 = setTimeout (CameraRestore initialY) 100 s1;
          (vels, s3) = shatter_velocities 50 s2;
          particles = \<lparr>positions = replicate 50 (position wall1), velocities = vels,
                       ttl = 1.0, opacity = 1, debris_color = color wall1, debris_z = 0,
                       debris_in_scene = True\<rparr>
      in (wall1, s3\<lparr>debrisParticles := debrisParticles s3 @ [particles]\<rparr>))"

text \<open>
  The body of the \<^verbatim>\<open>forEach\<close> of \<^verbatim>\<open>checkCollisions\<close>, for one obstacle: it
  returns the obstacle object as the callback leaves it, and the globals. The two
  \<^verbatim>\<open>return\<close> statements of the jump and slide branches leave the callback before
  its last line, \<^verbatim>\<open>obstacle.userData.collided = true\<close>.
\<close>

definition check_obstacle :: "box3 \<Rightarrow> obstacle \<Rightarrow> game \<Rightarrow> obstacle \<times> game" where
  "check_obstacle playerCollisionBox ob s =
     (if collided ob then (ob, s)
      else if intersectsBox playerCollisionBox (setFromObject ob) then
        (if isBreakable ob \<and> isPunching s then
           (let (ob1, s1) = shatterWall ob s in (ob1\<lparr>collided := True\<rparr>, s1))
         else if obstacleType ob = Jump \<and> isJumping s \<and>
                 vy (camera_position s) > vy (position ob) + 0.5 then (ob, s)
         else if obstacleType ob = Slide \<and> isSliding s \<and>
                 vy (camera_position s) < vy (position ob) - 0.5 then (ob, s)
         else (ob\<lparr>collided := True\<rparr>, gameOver s))
      else (ob, s))"

fun forEach_obstacle :: "box3 \<Rightarrow> obstacle list \<Rightarrow> game \<Rightarrow> obstacle list \<times> game" where
  "forEach_obstacle pb [] s = ([], s)"
| "forEach_obstacle pb (ob # obs) s =
     (let (ob1, s1) = check_obstacle pb ob s;
          (obs1, s2) = forEach_obstacle pb obs s1
      in (ob1 # obs1, s2))"

definition playerCollisionSize :: vector3 where
  "playerCollisionSize = Vector3 (LANE_WIDTH * 0.8) PLAYER_RUN_HEIGHT 1"

definition playerBox :: "game \<Rightarrow> box3" where
  "playerBox s =
     (let playerY = (if isSliding s then SLIDE_HEIGHT else PLAYER_RUN_HEIGHT);
          playerH = (if isSliding s then COLLISION_SLIDE_HEIGHT else PLAYER_RUN_HEIGHT)
      in setFromCenterAndSize
           (Vector3 (vx (camera_position s)) playerY (vz (camera_position s)))
           (Vector3 (vx playerCollisionSize) playerH (vz playerCollisionSize)))"

text \<open>
  \<^verbatim>\<open>checkCollisions()\<close>: the player's box is computed once, then every obstacle of
  the array is visited in order. The callbacks change obstacle objects and globals but
  never the array itself, so the array after the loop holds the visited objects.
\<close>

definition checkCollisions :: "game \<Rightarrow> game" where
  "checkCollisions s =
     (let (obs1, s1) = forEach_obstacle (playerBox s) (obstacles s) s
      in s1\<lparr>obstacles := obs1\<rparr>)"

subsection \<open>Debris\<close>

definition update_particles :: "real \<Rightarrow> debris \<Rightarrow> debris option" where
  "update_particles delta p =
     (let p1 = p\<lparr>ttl := ttl p - delta\<rparr>
      in if ttl p1 \<le> 0 then None
         else Some (p1\<lparr>opacity := ttl p1,
                       positions :=
                         map2 (\<lambda>pos v. Vector3 (vx pos + vx v * delta)
                                           (vy pos + (vy v * delta - 9.8 * delta * delta))
                                           (vz pos + vz v * delta))
                           (positions p1) (velocities p1)\<rparr>))"

text \<open>
  \<^verbatim>\<open>updateDebris(delta)\<close> walks the array from its end and splices expired bursts
  out; the bursts that stay keep their order.
\<close>

definition updateDebris :: "real \<Rightarrow> game \<Rightarrow> game" where
  "updateDebris delta s =
     s\<lparr>debrisParticles := List.map_filter (update_particles delta) (debrisParticles s)\<rparr>"

subsection \<open>The frame callback\<close>

text \<open>
  The pose part of \<^verbatim>\<open>animate\<close> (the \<^verbatim>\<open>isJumping\<close> block and the
  \<^verbatim>\<open>isSliding\<close> block that follows it), given the clock's \<open>elapsed\<close>.
\<close>

definition jump_pose :: "real \<Rightarrow> game \<Rightarrow> game" where
  "jump_pose elapsed s =
     (if isJumping s then
        (let timeInJump = elapsed - jumpStartTime s;
             progress = timeInJump / JUMP_DURATION
         in if progress < 1
            then (let jumpY = JUMP_HEIGHT * 4 * (progress - progress * progress)
                  in s\<lparr>camera_position := (camera_position s)\<lparr>vy := PLAYER_RUN_HEIGHT + jumpY\<rparr>\<rparr>)
            else s\<lparr>isJumping := False,
                   camera_position := (camera_position s)\<lparr>vy := PLAYER_RUN_HEIGHT\<rparr>\<rparr>)
      else s)"

definition slide_pose :: "game \<Rightarrow> game" where
  "slide_pose s =
     (if isSliding s then s\<lparr>camera_position := (camera_position s)\<lparr>vy := SLIDE_HEIGHT\<rparr>\<rparr>
      else if \<not> isJumping s
           then s\<lparr>camera_position := (camera_position s)\<lparr>vy := PLAYER_RUN_HEIGHT\<rparr>\<rparr>
      else s)"

definition move_obstacle :: "real \<Rightarrow> obstacle \<Rightarrow> obstacle" where
  "move_obstacle travelled ob = ob\<lparr>position := (position ob)\<lparr>vz := vz (position ob) + travelled\<rparr>\<rparr>"

text \<open>
  The world part of \<^verbatim>\<open>animate\<close>: the camera eases towards its lane, obstacles and
  debris move by the distance travelled, obstacles behind \<open>OBSTACLE_CULL_Z\<close> are
  spliced out of the array, and the debris ages.
\<close>

definition move_world :: "real \<Rightarrow> real \<Rightarrow> game \<Rightarrow> game" where
  "move_world delta travelled s =
     (let targetX = LANES ! nat (currentLane s);
          s1 = s\<lparr>camera_position :=
                   (camera_position s)\<lparr>vx := vx (camera_position s)
                                               + (targetX - vx (camera_position s)) * 0.1\<rparr>\<rparr>;
          s2 = s1\<lparr>obstacles := map (move_obstacle travelled) (obstacles s1)\<rparr>;
          s3 = s2\<lparr>obstacles := filter (\<lambda>ob. \<not> vz (position ob) > OBSTACLE_CULL_Z) (obstacles s2)\<rparr>;
          s4 = s3\<lparr>debrisParticles :=
                    map (\<lambda>p. p\<lparr>debris_z := debris_z p + travelled\<rparr>) (debrisParticles s3)\<rparr>
      in updateDebris delta s4)"

text \<open>
  \<^verbatim>\<open>animate()\<close>. It requests the next frame first, and does nothing else while the
  game is paused or over. Otherwise it reads the clock, sets the speed, resolves the
  pose, moves the world, checks collisions, advances the progression with the score
  before this frame's distance, lets the spawner run and, last, adds the distance to
  the score and shows it. Nothing between the collision check and the end of the
  function looks at \<open>isGameOver\<close>.
\<close>

definition animate :: "game \<Rightarrow> game" where
  "animate s0 =
     (let s = s0\<lparr>frame_requested := True\<rparr>
      in if isPaused s \<or> isGameOver s then s
         else
           (let (delta, s1) = getDelta s;
                (elapsed, s2) = getElapsedTime s1;
                s3 = s2\<lparr>currentSpeed :=
                         RUN_SPEED_BASE + of_int \<lfloor>elapsed / 10\<rfloor> * RUN_SPEED_INCREASE\<rparr>;
                s4 = slide_pose (jump_pose elapsed s3);
                travelled = currentSpeed s4 * delta;
                s5 = move_world delta travelled s4;
                s6 = checkCollisions s5;
                s7 = s6\<lparr>progressionManager := update (score s6) (progressionManager s6)\<rparr>;
                s8 = generateObstacles delta s7;
                s9 = s8\<lparr>score := score s8 + travelled * 0.1\<rparr>
            in s9\<lparr>score_counter := \<lfloor>score s9\<rfloor>\<rparr>))"

text \<open>
  The browser runs a requested frame unless it was cancelled: \<^verbatim>\<open>gameOver\<close> cancels
  the frame that \<^verbatim>\<open>animate\<close> has just requested.
\<close>

definition frame :: "game \<Rightarrow> game" where
  "frame s = (if frame_requested s then animate (s\<lparr>frame_requested := False\<rparr>) else s)"

definition startGameLoop :: "game \<Rightarrow> game" where
  "startGameLoop s = animate (s\<lparr>frame_requested := False\<rparr>)"

definition initGame :: "game \<Rightarrow> game" where
  "initGame s = startGameLoop (clock_start s)"

text \<open>
  \<^verbatim>\<open>resetGame()\<close>, assignment by assignment. The flags \<^verbatim>\<open>isJumping\<close>,
  \<^verbatim>\<open>isSliding\<close> and \<^verbatim>\<open>isPunching\<close> and the pending timers are not among
  them. Its last call runs a first frame at once.
\<close>

definition resetGame :: "game \<Rightarrow> game" where
  "resetGame s =
     (let s1 = s\<lparr>isGameOver := False, isPaused := False, currentLane := 1, score := 0,
                 currentSpeed := RUN_SPEED_BASE,
                 progressionManager := new_ProgressionManager,
                 timeSinceLastObstacle := 0\<rparr>;
          s2 = s1\<lparr>camera_position := Vector3 (LANES ! nat (currentLane s1)) PLAYER_RUN_HEIGHT 0\<rparr>;
          s3 = s2\<lparr>obstacles := [], debrisParticles := []\<rparr>;
          s4 = s3\<lparr>game_over_screen_hidden := True, score_counter := 0\<rparr>
      in startGameLoop (clock_start s4))"

text \<open>
  The click handler of the pause button, as far as the game state goes: it flips
  \<open>isPaused\<close> and shows or hides the overlay. The icon, the heading and the rewiring
  of the restart button are left out.
\<close>

definition pause_button_click :: "game \<Rightarrow> game" where
  "pause_button_click s =
     (let s1 = s\<lparr>isPaused := \<not> isPaused s\<rparr>
      in if isPaused s1
         then s1\<lparr>game_over_screen_hidden := False, final_score := PressResume\<rparr>
         else s1\<lparr>game_over_screen_hidden := True\<rparr>)"

text \<open>
  The state of the module after its top-level declarations, for a given wall clock and
  random stream, and the state after the kickoff \<^verbatim>\<open>initGame()\<close>.
\<close>

definition initial_game :: "real \<Rightarrow> (nat \<Rightarrow> unit_random) \<Rightarrow> game" where
  "initial_game t rnd =
     \<lparr>now = t, rand_src = rnd, rand_pos = 0, timers = [], frame_requested = False,
      clock = new_Clock, isPaused = False, isGameOver = False, currentLane = 1,
      isJumping = False, jumpStartTime = 0, isSliding = False, slideStartTime = 0,
      isPunching = False, punchStartTime = 0, score = 0, currentSpeed = RUN_SPEED_BASE,
      obstacles = [], debrisParticles = [], timeSinceLastObstacle = 0,
      progressionManager = new_ProgressionManager,
      camera_position = Vector3 (LANES ! 1) PLAYER_RUN_HEIGHT 0,
      score_counter = 0, final_score = NoText, game_over_screen_hidden = True\<rparr>"

definition fresh_session :: "real \<Rightarrow> (nat \<Rightarrow> unit_random) \<Rightarrow> game" where
  "fresh_session t rnd = initGame (initial_game t rnd)"

text \<open>One tick that comes \<open>ms\<close> milliseconds after the event before it.\<close>

definition tick_after :: "real \<Rightarrow> game \<Rightarrow> game" where
  "tick_after ms s = frame (elapse ms s)"

section \<open>Specification-side definitions, example states and proof devices\<close>



text \<open>
  Example states: a breakable wall, as \<^verbatim>\<open>createObstacle\<close> builds it, that has
  reached the player in the middle lane, with the player punching and not punching; and
  a jump obstacle under a player at the top of a jump.
\<close>

definition breakable_at_player :: obstacle where
  "breakable_at_player =
     \<lparr>position = Vector3 0 1.25 0, geometry = Vector3 (LANE_WIDTH * 0.8) 2.5 1,
      color = 8965324, obstacleType = Breakable, isBreakable = True, collided = False,
      in_scene = True\<rparr>"

definition punching_example :: game where
  "punching_example =
     (initial_game 0 (\<lambda>_. Abs_unit_random 0))
       \<lparr>isPunching := True, obstacles := [breakable_at_player]\<rparr>"

definition not_punching_example :: game where
  "not_punching_example =
     (initial_game 0 (\<lambda>_. Abs_unit_random 0))\<lparr>obstacles := [breakable_at_player]\<rparr>"

text \<open>
  What the collision pass and the spawner leave alone or change in one direction only:
  a proof device for the loops of a frame.
\<close>

definition evolves :: "game \<Rightarrow> game \<Rightarrow> bool" where
  "evolves s s' \<longleftrightarrow>
     score s' = score s \<and> progressionManager s' = progressionManager s \<and>
     currentSpeed s' = currentSpeed s \<and> isPaused s' = isPaused s \<and>
     isJumping s' = isJumping s \<and> isSliding s' = isSliding s \<and>
     isPunching s' = isPunching s \<and>
     (isGameOver s \<longrightarrow> isGameOver s') \<and>
     (frame_requested s' \<longrightarrow> frame_requested s) \<and>
     (isGameOver s' \<and> \<not> isGameOver s \<longrightarrow>
        \<not> frame_requested s' \<and> final_score s' = FinalScore \<lfloor>score s\<rfloor>) \<and>
     (final_score s' = final_score s \<or> final_score s' = FinalScore \<lfloor>score s\<rfloor>) \<and>
     (\<exists>ds. debrisParticles s' = debrisParticles s @ ds)"

text \<open>The clearance tests of the jump and slide branches of \<^verbatim>\<open>checkCollisions\<close>.\<close>

definition clears :: "game \<Rightarrow> obstacle \<Rightarrow> bool" where
  "clears s ob \<longleftrightarrow>
     obstacleType ob = Jump \<and> isJumping s \<and> vy (camera_position s) > vy (position ob) + 0.5 \<or>
     obstacleType ob = Slide \<and> isSliding s \<and> vy (camera_position s) < vy (position ob) - 0.5"

definition jump_at_player :: obstacle where
  "jump_at_player =
     \<lparr>position = Vector3 0 0.5 0, geometry = Vector3 (LANE_WIDTH * 0.8) 1 1,
      color = 16711680, obstacleType = Jump, isBreakable = False, collided = False,
      in_scene = True\<rparr>"

definition jumping_over_example :: game where
  "jumping_over_example =
     (initial_game 0 (\<lambda>_. Abs_unit_random 0))
       \<lparr>isJumping := True, camera_position := Vector3 0 6 0, obstacles := [jump_at_player]\<rparr>"

text \<open>
  Proof devices: the clock readings of a frame, and the state of a running frame just
  before \<^verbatim>\<open>checkCollisions\<close> is called, cut out of \<open>animate\<close>.
\<close>

definition frame_delta :: "game \<Rightarrow> real" where
  "frame_delta s0 = fst (getDelta (s0\<lparr>frame_requested := True\<rparr>))"

definition frame_elapsed :: "game \<Rightarrow> real" where
  "frame_elapsed s0 = fst (getElapsedTime (snd (getDelta (s0\<lparr>frame_requested := True\<rparr>))))"

definition frame_speed :: "game \<Rightarrow> real" where
  "frame_speed s0 = RUN_SPEED_BASE + of_int \<lfloor>frame_elapsed s0 / 10\<rfloor> * RUN_SPEED_INCREASE"

definition before_collisions :: "game \<Rightarrow> game" where
  "before_collisions s0 =
     (let s2 = snd (getElapsedTime (snd (getDelta (s0\<lparr>frame_requested := True\<rparr>))));
          s3 = s2\<lparr>currentSpeed := frame_speed s0\<rparr>;
          s4 = slide_pose (jump_pose (frame_elapsed s0) s3)
      in move_world (frame_delta s0) (frame_speed s0 * frame_delta s0) s4)"

text \<open>
  Proof devices for the spawner: the lanes and the kind that \<open>spawn\<close> picks in a
  state, and the number of random numbers it draws.
\<close>

definition spawn_lanes :: "stage_type \<Rightarrow> game \<Rightarrow> nat list" where
  "spawn_lanes stageType s =
     fst (choose_blockedLanes (fst (choose_numObstacles stageType s))
            (snd (choose_numObstacles stageType s)))"

definition spawn_type :: "stage_type \<Rightarrow> obstacle_type list \<Rightarrow> game \<Rightarrow> obstacle_type" where
  "spawn_type stageType allowedTypes s =
     (let s2 = snd (choose_blockedLanes (fst (choose_numObstacles stageType s))
                     (snd (choose_numObstacles stageType s)))
      in allowedTypes ! nat \<lfloor>fst (Math_random s2) * real (length allowedTypes)\<rfloor>)"

definition spawn_draws :: "stage_type \<Rightarrow> nat" where
  "spawn_draws stageType = (if stageType = full_combo \<or> stageType = dodge_only then 3 else 2)"

text \<open>
  The rule table as the specification writes it: the kinds each obstacle rule allows.
\<close>

definition spec_allowed_kinds :: "stage_type \<Rightarrow> obstacle_type list" where
  "spec_allowed_kinds st =
     (case st of
        warmup \<Rightarrow> []
      | jump_only \<Rightarrow> [Jump]
      | slide_only \<Rightarrow> [Slide]
      | dodge_only \<Rightarrow> [Wall]
      | punch_only \<Rightarrow> [Breakable]
      | full_combo \<Rightarrow> [Jump, Slide, Wall, Breakable])"

text \<open>The obstacles that one call of \<^verbatim>\<open>generateObstacles\<close> adds to the array.\<close>

definition spawned :: "real \<Rightarrow> game \<Rightarrow> obstacle list" where
  "spawned delta s = drop (length (obstacles s)) (obstacles (generateObstacles delta s))"

text \<open>
  Example states for the spawner: the dodge stage with the accumulator about to reach
  the period, where the random stream first yields 0.7 (two lanes) and then 0.5 (lane 1
  stays open); and the same state in the jump stage.
\<close>

definition dodge_example :: game where
  "dodge_example =
     (initial_game 0 (\<lambda>i. Abs_unit_random (if i = 0 then 0.7 else 0.5)))
       \<lparr>progressionManager := \<lparr>currentStageIndex = 3, currentStage = PROGRESSION_STAGES ! 3\<rparr>,
        timeSinceLastObstacle := 1.6\<rparr>"

definition jump_stage_example :: game where
  "jump_stage_example =
     (initial_game 0 (\<lambda>i. Abs_unit_random 0.5))
       \<lparr>progressionManager := \<lparr>currentStageIndex = 1, currentStage = PROGRESSION_STAGES ! 1\<rparr>,
        timeSinceLastObstacle := 1.6\<rparr>"

text \<open>
  A death tick: the dodge stage, 100 ms after the last frame, the score just past the
  threshold of the next stage, the spawner about to fire, and the player caught between
  lanes 0 and 1 by the two walls of one spawn event.
\<close>

definition wall_at :: "nat \<Rightarrow> real \<Rightarrow> obstacle" where
  "wall_at lane z = (new_mesh lane Wall)\<lparr>position := (position (new_mesh lane Wall))\<lparr>vz := z\<rparr>\<rparr>"

definition death_tick_example :: game where
  "death_tick_example =
     (initial_game 100 (\<lambda>i. Abs_unit_random (1 / 2)))
       \<lparr>frame_requested := True,
        clock := \<lparr>autoStart = True, startTime = 0, oldTime = 0, elapsedTime = 600,
                  running = True\<rparr>,
        score := 1800.7, currentSpeed := 45,
        obstacles := [wall_at 0 (- 4.5), wall_at 1 (- 4.5)],
        timeSinceLastObstacle := 0.6,
        progressionManager := \<lparr>currentStageIndex = 3, currentStage = PROGRESSION_STAGES ! 3\<rparr>,
        camera_position := Vector3 (- 2.5) PLAYER_RUN_HEIGHT 0\<rparr>"

text \<open>
  Proof device: a running, unpaused session in the warmup stage with nothing on the
  road, no pending timer, the player running, the clock read at the present moment, the
  clock's elapsed time \<open>e\<close> and the score \<open>sc\<close>.
\<close>

definition idle_warmup :: "real \<Rightarrow> real \<Rightarrow> game \<Rightarrow> bool" where
  "idle_warmup e sc s \<longleftrightarrow>
     \<not> isPaused s \<and> \<not> isGameOver s \<and> \<not> isJumping s \<and> \<not> isSliding s \<and>
     obstacles s = [] \<and> debrisParticles s = [] \<and> timers s = [] \<and> frame_requested s \<and>
     progressionManager s = new_ProgressionManager \<and>
     running (clock s) \<and> oldTime (clock s) = now s \<and> elapsedTime (clock s) = e \<and>
     score s = sc"

text \<open>
  A slide that begins in a fresh session, and a pause 100 ms into it.
\<close>

definition paused_mid_slide :: game where
  "paused_mid_slide =
     pause_button_click (elapse 100 (slide (fresh_session 0 (\<lambda>i. Abs_unit_random 0))))"

text \<open>
  Proof device: the state that \<open>resetGame\<close> hands to its first frame.
\<close>

definition reset_state :: "game \<Rightarrow> game" where
  "reset_state s =
     (clock_start
        (s\<lparr>isGameOver := False, isPaused := False, currentLane := 1, score := 0,
           currentSpeed := RUN_SPEED_BASE, progressionManager := new_ProgressionManager,
           timeSinceLastObstacle := 0,
           camera_position := Vector3 (LANES ! nat 1) PLAYER_RUN_HEIGHT 0,
           obstacles := [], debrisParticles := [],
           game_over_screen_hidden := True, score_counter := 0\<rparr>))
       \<lparr>frame_requested := False\<rparr>"

text \<open>
  A session that ended in mid-jump: the player jumped at clock time 4.8 and ran into a
  wall at 5.0; the loop has stopped, so \<open>isJumping\<close> is still set.
\<close>

definition died_mid_jump :: game where
  "died_mid_jump =
     (initial_game 5000 (\<lambda>i. Abs_unit_random 0))
       \<lparr>clock := \<lparr>autoStart = True, startTime = 0, oldTime = 5000, elapsedTime = 5,
                  running = True\<rparr>,
        isGameOver := True, isJumping := True, jumpStartTime := 4.8,
        score := 7.5, score_counter := 7, final_score := FinalScore 7,
        game_over_screen_hidden := False,
        obstacles := [(wall_at 1 0)\<lparr>collided := True\<rparr>],
        camera_position := Vector3 0 5.82 0\<rparr>"


text \<open>
  The events that can follow a call of \<^verbatim>\<open>jump()\<close> while the session is not
  restarted: real time passing, a frame, and the other inputs. A further call of
  \<^verbatim>\<open>jump()\<close> during the jump is refused and changes nothing, so it is not listed.
\<close>

datatype event = Elapse real | Frame | PunchInput | MoveLaneInput int | PauseClick | SlideInput

fun apply_event :: "event \<Rightarrow> game \<Rightarrow> game" where
  "apply_event (Elapse ms) s = elapse ms s"
| "apply_event Frame s = frame s"
| "apply_event PunchInput s = punch s"
| "apply_event (MoveLaneInput direction) s = moveLane direction s"
| "apply_event PauseClick s = pause_button_click s"
| "apply_event SlideInput s = slide s"


definition run :: "event list \<Rightarrow> game \<Rightarrow> game" where
  "run evs s = fold apply_event evs s"








section \<open>Verification\<close>

subsection \<open>Progression\<close>

lemma length_PROGRESSION_STAGES: "length PROGRESSION_STAGES = 6"
  by (simp add: PROGRESSION_STAGES_def)

lemma update_index_cases:
  "currentStageIndex (update sc pm) =
     (if currentStageIndex pm < length PROGRESSION_STAGES - 1 \<and>
         sc \<ge> distance (PROGRESSION_STAGES ! (currentStageIndex pm + 1))
      then currentStageIndex pm + 1 else currentStageIndex pm)"
  by (simp add: update_def)

lemma update_index_bounded:
  "currentStageIndex pm \<le> length PROGRESSION_STAGES - 1 \<Longrightarrow>
   currentStageIndex (update sc pm) \<le> length PROGRESSION_STAGES - 1"
  by (simp add: update_index_cases)

lemma update_trace_steps:
  "steps_by_at_most_one (currentStageIndex pm) (update_trace pm scs)"
proof (induction scs arbitrary: pm)
  case Nil
  show ?case by simp
next
  case (Cons sc scs)
  have "currentStageIndex pm \<le> currentStageIndex (update sc pm)"
    and "currentStageIndex (update sc pm) \<le> currentStageIndex pm + 1"
    by (simp_all add: update_index_cases)
  with Cons.IH [of "update sc pm"] show ?case by simp
qed

lemma update_trace_bounded:
  "currentStageIndex pm \<le> length PROGRESSION_STAGES - 1 \<Longrightarrow>
   i \<in> set (update_trace pm scs) \<Longrightarrow> i \<le> length PROGRESSION_STAGES - 1"
proof (induction scs arbitrary: pm)
  case Nil
  then show ?case by simp
next
  case (Cons sc scs)
  from Cons.prems(1) have b: "currentStageIndex (update sc pm) \<le> length PROGRESSION_STAGES - 1"
    by (rule update_index_bounded)
  from Cons.prems(2) consider "i = currentStageIndex (update sc pm)"
    | "i \<in> set (update_trace (update sc pm) scs)" by auto
  then show ?case
  proof cases
    case 1 with b show ?thesis by simp
  next
    case 2 with Cons.IH [OF b] show ?thesis by simp
  qed
qed

lemma steps_sorted: "steps_by_at_most_one i js \<Longrightarrow> sorted (i # js)"
proof (induction js arbitrary: i)
  case Nil then show ?case by simp
next
  case (Cons j js)
  from Cons.prems have "i \<le> j" and "steps_by_at_most_one j js" by simp_all
  with Cons.IH [of j] have "i \<le> j" and "sorted (j # js)" by simp_all
  then show ?case by (simp only: sorted2)
qed

text \<open>
  C3. Along every sequence of calls of \<^verbatim>\<open>update\<close>, from a manager whose index is
  within the stage table, the stage index never falls, rises by at most one per call and
  never exceeds \<open>length PROGRESSION_STAGES - 1\<close>; a call advances exactly when a next
  stage exists and the score has reached its threshold, and the last stage is terminal.
\<close>

theorem update_monotone_bounded_single_step:
  "currentStageIndex pm \<le> length PROGRESSION_STAGES - 1 \<longrightarrow>
     steps_by_at_most_one (currentStageIndex pm) (update_trace pm scs) \<and>
     sorted (currentStageIndex pm # update_trace pm scs) \<and>
     list_all (\<lambda>i. i \<le> length PROGRESSION_STAGES - 1) (update_trace pm scs) \<and>
     currentStageIndex pm \<le> currentStageIndex (update sc pm) \<and>
     currentStageIndex (update sc pm) \<le> currentStageIndex pm + 1 \<and>
     currentStageIndex (update sc pm) \<le> length PROGRESSION_STAGES - 1 \<and>
     (currentStageIndex (update sc pm) = currentStageIndex pm + 1 \<longleftrightarrow>
        currentStageIndex pm < length PROGRESSION_STAGES - 1 \<and>
        sc \<ge> distance (PROGRESSION_STAGES ! (currentStageIndex pm + 1))) \<and>
     (currentStageIndex pm = length PROGRESSION_STAGES - 1 \<longrightarrow> update sc pm = pm)"
proof
  assume b: "currentStageIndex pm \<le> length PROGRESSION_STAGES - 1"
  have 1: "steps_by_at_most_one (currentStageIndex pm) (update_trace pm scs)"
    by (rule update_trace_steps)
  have 2: "sorted (currentStageIndex pm # update_trace pm scs)"
    using 1 by (rule steps_sorted)
  have 3: "list_all (\<lambda>i. i \<le> length PROGRESSION_STAGES - 1) (update_trace pm scs)"
    using update_trace_bounded [OF b] by (simp add: list_all_iff)
  have 4: "currentStageIndex pm \<le> currentStageIndex (update sc pm)"
    by (simp add: update_index_cases)
  have 5: "currentStageIndex (update sc pm) \<le> currentStageIndex pm + 1"
    by (simp add: update_index_cases)
  have 6: "currentStageIndex (update sc pm) \<le> length PROGRESSION_STAGES - 1"
    using b by (rule update_index_bounded)
  have 7: "currentStageIndex (update sc pm) = currentStageIndex pm + 1 \<longleftrightarrow>
        currentStageIndex pm < length PROGRESSION_STAGES - 1 \<and>
        sc \<ge> distance (PROGRESSION_STAGES ! (currentStageIndex pm + 1))"
    by (simp add: update_index_cases)
  have 8: "currentStageIndex pm = length PROGRESSION_STAGES - 1 \<longrightarrow> update sc pm = pm"
    by (simp add: update_def)
  from 1 2 3 4 5 6 7 8 show "steps_by_at_most_one (currentStageIndex pm) (update_trace pm scs) \<and>
     sorted (currentStageIndex pm # update_trace pm scs) \<and>
     list_all (\<lambda>i. i \<le> length PROGRESSION_STAGES - 1) (update_trace pm scs) \<and>
     currentStageIndex pm \<le> currentStageIndex (update sc pm) \<and>
     currentStageIndex (update sc pm) \<le> currentStageIndex pm + 1 \<and>
     currentStageIndex (update sc pm) \<le> length PROGRESSION_STAGES - 1 \<and>
     (currentStageIndex (update sc pm) = currentStageIndex pm + 1 \<longleftrightarrow>
        currentStageIndex pm < length PROGRESSION_STAGES - 1 \<and>
        sc \<ge> distance (PROGRESSION_STAGES ! (currentStageIndex pm + 1))) \<and>
     (currentStageIndex pm = length PROGRESSION_STAGES - 1 \<longrightarrow> update sc pm = pm)"
    by blast
qed

lemma trace_example:
  "update_trace new_ProgressionManager [449, 450, 5000, 0, 5000] = [0, 1, 2, 2, 3]"
  by (simp add: update_def new_ProgressionManager_def PROGRESSION_STAGES_def PHASE_DURATION_SCORE_def)

theorem update_monotone_bounded_single_step_witness:
  "currentStageIndex new_ProgressionManager \<le> length PROGRESSION_STAGES - 1 \<and>
   update_trace new_ProgressionManager [449, 450, 5000, 0, 5000] = [0, 1, 2, 2, 3] \<and>
   steps_by_at_most_one (currentStageIndex new_ProgressionManager)
     (update_trace new_ProgressionManager [449, 450, 5000, 0, 5000]) \<and>
   list_all (\<lambda>i. i \<le> length PROGRESSION_STAGES - 1)
     (update_trace new_ProgressionManager [449, 450, 5000, 0, 5000]) \<and>
   currentStageIndex (update 5000 new_ProgressionManager) = 1"
  using update_monotone_bounded_single_step
    [of new_ProgressionManager "[449, 450, 5000, 0, 5000]" 5000]
  by (simp add: trace_example new_ProgressionManager_def length_PROGRESSION_STAGES update_index_cases PROGRESSION_STAGES_def PHASE_DURATION_SCORE_def)

subsection \<open>The jump arc\<close>





subsection \<open>Collisions with breakable obstacles\<close>

lemma evolves_refl: "evolves s s"
  by (simp add: evolves_def)

lemma evolves_trans:
  assumes a: "evolves s s1" and b: "evolves s1 s2"
  shows "evolves s s2"
proof -
  from a b obtain ds1 ds2 where
    "debrisParticles s1 = debrisParticles s @ ds1" "debrisParticles s2 = debrisParticles s1 @ ds2"
    unfolding evolves_def by blast
  then have d: "\<exists>ds. debrisParticles s2 = debrisParticles s @ ds" by simp
  from a have a1: "score s1 = score s" "progressionManager s1 = progressionManager s"
    "currentSpeed s1 = currentSpeed s" "isPaused s1 = isPaused s" "isJumping s1 = isJumping s"
    "isSliding s1 = isSliding s" "isPunching s1 = isPunching s"
    unfolding evolves_def by blast+
  from b have b1: "score s2 = score s1" "progressionManager s2 = progressionManager s1"
    "currentSpeed s2 = currentSpeed s1" "isPaused s2 = isPaused s1" "isJumping s2 = isJumping s1"
    "isSliding s2 = isSliding s1" "isPunching s2 = isPunching s1"
    unfolding evolves_def by blast+
  from a have a2: "isGameOver s \<longrightarrow> isGameOver s1" "frame_requested s1 \<longrightarrow> frame_requested s"
    "isGameOver s1 \<and> \<not> isGameOver s \<longrightarrow>
        \<not> frame_requested s1 \<and> final_score s1 = FinalScore \<lfloor>score s\<rfloor>"
    "final_score s1 = final_score s \<or> final_score s1 = FinalScore \<lfloor>score s\<rfloor>"
    unfolding evolves_def by blast+
  from b a1(1) have b2: "isGameOver s1 \<longrightarrow> isGameOver s2" "frame_requested s2 \<longrightarrow> frame_requested s1"
    "isGameOver s2 \<and> \<not> isGameOver s1 \<longrightarrow>
        \<not> frame_requested s2 \<and> final_score s2 = FinalScore \<lfloor>score s\<rfloor>"
    "final_score s2 = final_score s1 \<or> final_score s2 = FinalScore \<lfloor>score s\<rfloor>"
    unfolding evolves_def by simp_all
  have c1: "isGameOver s \<longrightarrow> isGameOver s2" using a2(1) b2(1) by blast
  have c2: "frame_requested s2 \<longrightarrow> frame_requested s" using a2(2) b2(2) by blast
  have c3: "isGameOver s2 \<and> \<not> isGameOver s \<longrightarrow>
        \<not> frame_requested s2 \<and> final_score s2 = FinalScore \<lfloor>score s\<rfloor>"
    using a2 b2 by metis
  have c4: "final_score s2 = final_score s \<or> final_score s2 = FinalScore \<lfloor>score s\<rfloor>"
    using a2(4) b2(4) by metis
  from a1 b1 c1 c2 c3 c4 d show ?thesis
    unfolding evolves_def by simp
qed

lemma shatter_velocities_state:
  "snd (shatter_velocities n s) = s\<lparr>rand_pos := rand_pos s + 3 * n\<rparr>"
proof (induction n arbitrary: s)
  case 0
  show ?case by simp
next
  case (Suc n)
  let ?s3 = "s\<lparr>rand_pos := rand_pos s + 3\<rparr>"
  have "snd (shatter_velocities (Suc n) s) = snd (shatter_velocities n ?s3)"
    by (simp add: Math_random_def split_beta Let_def numeral_3_eq_3)
  also have "\<dots> = ?s3\<lparr>rand_pos := rand_pos ?s3 + 3 * n\<rparr>"
    by (rule Suc.IH)
  finally show ?case by simp
qed

lemma shatterWall_state:
  "snd (shatterWall wall s) =
     s\<lparr>camera_position := (camera_position s)\<lparr>vy := vy (camera_position s) + 0.5\<rparr>,
       timers := timers s @ [(now s + 100, CameraRestore (vy (camera_position s)))],
       rand_pos := rand_pos s + 150,
       debrisParticles := debrisParticles s @
         [\<lparr>positions = replicate 50 (position wall),
           velocities = fst (shatter_velocities 50
              (setTimeout (CameraRestore (vy (camera_position s))) 100
                 (s\<lparr>camera_position := (camera_position s)\<lparr>vy := vy (camera_position s) + 0.5\<rparr>\<rparr>))),
           ttl = 1, opacity = 1, debris_color = color wall, debris_z = 0,
           debris_in_scene = True\<rparr>]\<rparr>"
  by (simp add: shatterWall_def Let_def split_beta shatter_velocities_state setTimeout_def)

lemma evolves_shatterWall: "evolves s (snd (shatterWall wall s))"
  by (simp add: shatterWall_state evolves_def)

lemma evolves_gameOver: "evolves s (gameOver s)"
  by (simp add: gameOver_def evolves_def)

lemma check_obstacle_cases:
  "snd (check_obstacle pb ob s) = s \<or>
   snd (check_obstacle pb ob s) = snd (shatterWall ob s) \<or>
   snd (check_obstacle pb ob s) = gameOver s"
  by (simp add: check_obstacle_def split_beta)

lemma evolves_check_obstacle: "evolves s (snd (check_obstacle pb ob s))"
  using check_obstacle_cases [of pb ob s] evolves_refl [of s] evolves_shatterWall [of s ob]
    evolves_gameOver [of s]
  by metis

lemma shatterWall_wall:
  "fst (shatterWall wall s) = wall\<lparr>in_scene := False, collided := True\<rparr>"
  by (simp add: shatterWall_def Let_def split_beta)

lemma check_obstacle_shatter:
  assumes "\<not> collided ob" and "isBreakable ob" and "isPunching s"
    and "intersectsBox pb (setFromObject ob)"
  shows "check_obstacle pb ob s =
           (ob\<lparr>in_scene := False, collided := True\<rparr>, snd (shatterWall ob s))"
  using assms by (simp add: check_obstacle_def split_beta shatterWall_wall)

lemma check_obstacle_fatal_breakable:
  assumes "\<not> collided ob" and "obstacleType ob = Breakable" and "\<not> isPunching s"
    and "intersectsBox pb (setFromObject ob)"
  shows "check_obstacle pb ob s = (ob\<lparr>collided := True\<rparr>, gameOver s)"
  using assms by (simp add: check_obstacle_def)

lemma forEach_obstacle_length: "length (fst (forEach_obstacle pb obs s)) = length obs"
  by (induction obs arbitrary: s) (simp_all add: split_beta)

lemma evolves_forEach_obstacle: "evolves s (snd (forEach_obstacle pb obs s))"
proof (induction obs arbitrary: s)
  case Nil
  show ?case by (simp add: evolves_refl)
next
  case (Cons ob obs)
  have "evolves s (snd (check_obstacle pb ob s))" by (rule evolves_check_obstacle)
  moreover have "evolves (snd (check_obstacle pb ob s))
      (snd (forEach_obstacle pb obs (snd (check_obstacle pb ob s))))" by (rule Cons.IH)
  ultimately show ?case by (simp add: split_beta evolves_trans)
qed

lemma forEach_obstacle_nth:
  "i < length obs \<Longrightarrow>
   \<exists>s1. evolves s s1 \<and>
        fst (forEach_obstacle pb obs s) ! i = fst (check_obstacle pb (obs ! i) s1) \<and>
        evolves (snd (check_obstacle pb (obs ! i) s1)) (snd (forEach_obstacle pb obs s))"
proof (induction obs arbitrary: i s)
  case Nil
  then show ?case by simp
next
  case (Cons ob obs)
  let ?s1 = "snd (check_obstacle pb ob s)"
  show ?case
  proof (cases i)
    case 0
    have "evolves ?s1 (snd (forEach_obstacle pb obs ?s1))" by (rule evolves_forEach_obstacle)
    with 0 show ?thesis
      by (intro exI [of _ s]) (simp add: split_beta evolves_refl)
  next
    case (Suc j)
    with Cons.prems have "j < length obs" by simp
    from Cons.IH [OF this, of ?s1] obtain s2 where
      s2: "evolves ?s1 s2"
        "fst (forEach_obstacle pb obs ?s1) ! j = fst (check_obstacle pb (obs ! j) s2)"
        "evolves (snd (check_obstacle pb (obs ! j) s2)) (snd (forEach_obstacle pb obs ?s1))"
      by blast
    have "evolves s s2" using evolves_check_obstacle s2(1) by (rule evolves_trans)
    with s2 Suc show ?thesis
      by (intro exI [of _ s2]) (simp add: split_beta)
  qed
qed

lemma checkCollisions_eq:
  "checkCollisions s =
     (snd (forEach_obstacle (playerBox s) (obstacles s) s))
       \<lparr>obstacles := fst (forEach_obstacle (playerBox s) (obstacles s) s)\<rparr>"
  by (simp add: checkCollisions_def split_beta)

text \<open>
  C1 (as amended). For every obstacle of the array that is not yet collided, is of kind
  breakable and intersects the player's box on a tick: if the player is punching, the
  obstacle leaves the scene and is marked collided, a debris burst at its position is
  emitted, the visit does not end the game, and the obstacle stays in the array
  \<^verbatim>\<open>obstacles\<close>; if the player is not punching, the game is over after the check.
\<close>

theorem breakable_collision:
  assumes "i < length (obstacles s)"
    and "\<not> collided (obstacles s ! i)"
    and "obstacleType (obstacles s ! i) = Breakable"
    and "isBreakable (obstacles s ! i)"
    and "intersectsBox (playerBox s) (setFromObject (obstacles s ! i))"
  shows "(isPunching s \<longrightarrow>
            length (obstacles (checkCollisions s)) = length (obstacles s) \<and>
            obstacles (checkCollisions s) ! i =
              (obstacles s ! i)\<lparr>in_scene := False, collided := True\<rparr> \<and>
            list_ex (\<lambda>d. positions d = replicate 50 (position (obstacles s ! i)) \<and> ttl d = 1)
              (debrisParticles (checkCollisions s)) \<and>
            isGameOver (snd (check_obstacle (playerBox s) (obstacles s ! i) s)) = isGameOver s) \<and>
         (\<not> isPunching s \<longrightarrow>
            isGameOver (checkCollisions s) \<and>
            obstacles (checkCollisions s) ! i = (obstacles s ! i)\<lparr>collided := True\<rparr>)"
proof -
  let ?pb = "playerBox s" and ?ob = "obstacles s ! i"
  let ?res = "forEach_obstacle ?pb (obstacles s) s"
  from forEach_obstacle_nth [OF assms(1), of s ?pb] obtain s1 where
    s1: "evolves s s1" "fst ?res ! i = fst (check_obstacle ?pb ?ob s1)"
      "evolves (snd (check_obstacle ?pb ?ob s1)) (snd ?res)"
    by blast
  have len: "length (obstacles (checkCollisions s)) = length (obstacles s)"
    by (simp add: checkCollisions_eq forEach_obstacle_length)
  have punching: "isPunching s \<longrightarrow>
            length (obstacles (checkCollisions s)) = length (obstacles s) \<and>
            obstacles (checkCollisions s) ! i = ?ob\<lparr>in_scene := False, collided := True\<rparr> \<and>
            list_ex (\<lambda>d. positions d = replicate 50 (position ?ob) \<and> ttl d = 1)
              (debrisParticles (checkCollisions s)) \<and>
            isGameOver (snd (check_obstacle ?pb ?ob s)) = isGameOver s"
  proof
    assume p: "isPunching s"
    with s1(1) have p1: "isPunching s1" by (simp add: evolves_def)
    have c1: "check_obstacle ?pb ?ob s1 =
        (?ob\<lparr>in_scene := False, collided := True\<rparr>, snd (shatterWall ?ob s1))"
      using assms(2,4) p1 assms(5) by (rule check_obstacle_shatter)
    have c: "check_obstacle ?pb ?ob s =
        (?ob\<lparr>in_scene := False, collided := True\<rparr>, snd (shatterWall ?ob s))"
      using assms(2,4) p assms(5) by (rule check_obstacle_shatter)
    have nth: "obstacles (checkCollisions s) ! i = ?ob\<lparr>in_scene := False, collided := True\<rparr>"
      using s1(2) c1 by (simp add: checkCollisions_eq)
    from s1(3) c1 obtain ds where
      "debrisParticles (snd ?res) = debrisParticles (snd (shatterWall ?ob s1)) @ ds"
      by (auto simp add: evolves_def)
    then have "list_ex (\<lambda>d. positions d = replicate 50 (position ?ob) \<and> ttl d = 1)
        (debrisParticles (snd ?res))"
      by (simp add: shatterWall_state)
    then have burst: "list_ex (\<lambda>d. positions d = replicate 50 (position ?ob) \<and> ttl d = 1)
        (debrisParticles (checkCollisions s))"
      by (simp add: checkCollisions_eq)
    have alive: "isGameOver (snd (check_obstacle ?pb ?ob s)) = isGameOver s"
      by (simp add: c shatterWall_state)
    from len nth burst alive show
      "length (obstacles (checkCollisions s)) = length (obstacles s) \<and>
       obstacles (checkCollisions s) ! i = ?ob\<lparr>in_scene := False, collided := True\<rparr> \<and>
       list_ex (\<lambda>d. positions d = replicate 50 (position ?ob) \<and> ttl d = 1)
         (debrisParticles (checkCollisions s)) \<and>
       isGameOver (snd (check_obstacle ?pb ?ob s)) = isGameOver s"
      by blast
  qed
  have idle: "\<not> isPunching s \<longrightarrow>
      isGameOver (checkCollisions s) \<and> obstacles (checkCollisions s) ! i = ?ob\<lparr>collided := True\<rparr>"
  proof
    assume p: "\<not> isPunching s"
    with s1(1) have p1: "\<not> isPunching s1" by (simp add: evolves_def)
    have c1: "check_obstacle ?pb ?ob s1 = (?ob\<lparr>collided := True\<rparr>, gameOver s1)"
      using assms(2,3) p1 assms(5) by (rule check_obstacle_fatal_breakable)
    have "isGameOver (gameOver s1)" by (simp add: gameOver_def)
    with s1(3) c1 have "isGameOver (snd ?res)" by (simp add: evolves_def)
    then have over: "isGameOver (checkCollisions s)" by (simp add: checkCollisions_eq)
    have nth: "obstacles (checkCollisions s) ! i = ?ob\<lparr>collided := True\<rparr>"
      using s1(2) c1 by (simp add: checkCollisions_eq)
    from over nth show "isGameOver (checkCollisions s) \<and>
        obstacles (checkCollisions s) ! i = ?ob\<lparr>collided := True\<rparr>" by blast
  qed
  from punching idle show ?thesis by blast
qed

lemma playerBox_initial:
  "playerBox ((initial_game t rnd)\<lparr>isPunching := p, obstacles := obs\<rparr>) =
     \<lparr>bmin = Vector3 (- 2) 0.75 (- 0.5), bmax = Vector3 2 2.25 0.5\<rparr>"
  by (simp add: playerBox_def initial_game_def playerCollisionSize_def setFromCenterAndSize_def
      Vector3_def LANES_def LANE_WIDTH_def PLAYER_RUN_HEIGHT_def)

lemma breakable_at_player_box:
  "setFromObject breakable_at_player = \<lparr>bmin = Vector3 (- 2) 0 (- 0.5), bmax = Vector3 2 2.5 0.5\<rparr>"
  by (simp add: setFromObject_def breakable_at_player_def setFromCenterAndSize_def Vector3_def
      LANE_WIDTH_def)

lemma breakable_at_player_hit:
  "intersectsBox (playerBox ((initial_game t rnd)\<lparr>isPunching := p, obstacles := obs\<rparr>))
     (setFromObject breakable_at_player)"
  by (simp add: playerBox_initial breakable_at_player_box intersectsBox_def Vector3_def)

theorem breakable_collision_witness:
  "isPunching punching_example \<and> \<not> isGameOver punching_example \<and>
   obstacles punching_example ! 0 = breakable_at_player \<and>
   obstacles (checkCollisions punching_example) ! 0 =
     breakable_at_player\<lparr>in_scene := False, collided := True\<rparr> \<and>
   list_ex (\<lambda>d. positions d = replicate 50 (position breakable_at_player) \<and> ttl d = 1)
     (debrisParticles (checkCollisions punching_example)) \<and>
   \<not> isPunching not_punching_example \<and>
   obstacles not_punching_example ! 0 = breakable_at_player \<and>
   isGameOver (checkCollisions not_punching_example)"
proof -
  have h: "intersectsBox (playerBox punching_example) (setFromObject (obstacles punching_example ! 0))"
    using breakable_at_player_hit [where t = 0 and rnd = "\<lambda>_. Abs_unit_random 0" and p = True
        and obs = "[breakable_at_player]"]
    by (simp add: punching_example_def)
  have h': "intersectsBox (playerBox not_punching_example)
      (setFromObject (obstacles not_punching_example ! 0))"
    using breakable_at_player_hit [where t = 0 and rnd = "\<lambda>_. Abs_unit_random 0" and p = False
        and obs = "[breakable_at_player]"]
    by (simp add: not_punching_example_def initial_game_def)
  have a: "0 < length (obstacles punching_example)" "\<not> collided (obstacles punching_example ! 0)"
    "obstacleType (obstacles punching_example ! 0) = Breakable"
    "isBreakable (obstacles punching_example ! 0)"
    by (simp_all add: punching_example_def breakable_at_player_def)
  have a': "0 < length (obstacles not_punching_example)"
    "\<not> collided (obstacles not_punching_example ! 0)"
    "obstacleType (obstacles not_punching_example ! 0) = Breakable"
    "isBreakable (obstacles not_punching_example ! 0)"
    by (simp_all add: not_punching_example_def breakable_at_player_def)
  have p: "isPunching punching_example" "\<not> isGameOver punching_example"
    "obstacles punching_example ! 0 = breakable_at_player"
    by (simp_all add: punching_example_def initial_game_def)
  have p': "\<not> isPunching not_punching_example"
    "obstacles not_punching_example ! 0 = breakable_at_player"
    by (simp_all add: not_punching_example_def initial_game_def)
  from breakable_collision [OF a h] breakable_collision [OF a' h'] p p'
  show ?thesis by simp
qed

text \<open>
  C1 as stated fails: the shattered obstacle is not removed from the array of live
  obstacles.
\<close>

theorem shattered_obstacle_stays_in_array:
  "isPunching punching_example \<and>
   obstacles punching_example = [breakable_at_player] \<and>
   \<not> collided breakable_at_player \<and> obstacleType breakable_at_player = Breakable \<and>
   intersectsBox (playerBox punching_example) (setFromObject breakable_at_player) \<and>
   obstacles (checkCollisions punching_example) =
     [breakable_at_player\<lparr>in_scene := False, collided := True\<rparr>] \<and>
   obstacles (checkCollisions punching_example) \<noteq> []"
proof -
  have h: "intersectsBox (playerBox punching_example) (setFromObject breakable_at_player)"
    using breakable_at_player_hit [where t = 0 and rnd = "\<lambda>_. Abs_unit_random 0" and p = True
        and obs = "[breakable_at_player]"]
    by (simp add: punching_example_def)
  have p: "isPunching punching_example" "obstacles punching_example = [breakable_at_player]"
    by (simp_all add: punching_example_def initial_game_def)
  have b: "\<not> collided breakable_at_player" "isBreakable breakable_at_player"
    "obstacleType breakable_at_player = Breakable"
    by (simp_all add: breakable_at_player_def)
  have "check_obstacle (playerBox punching_example) breakable_at_player punching_example =
      (breakable_at_player\<lparr>in_scene := False, collided := True\<rparr>,
       snd (shatterWall breakable_at_player punching_example))"
    using b(1,2) p(1) h by (rule check_obstacle_shatter)
  then have "obstacles (checkCollisions punching_example) =
      [breakable_at_player\<lparr>in_scene := False, collided := True\<rparr>]"
    by (simp add: checkCollisions_eq p(2))
  with h p b show ?thesis by simp
qed

subsection \<open>Jumping over and sliding under\<close>

lemma check_obstacle_cleared:
  assumes "\<not> collided ob" and "\<not> isBreakable ob" and "clears s ob"
    and "intersectsBox pb (setFromObject ob)"
  shows "check_obstacle pb ob s = (ob, s)"
  using assms by (auto simp add: check_obstacle_def clears_def)

text \<open>
  C2 (as amended). For every intersecting, not yet collided obstacle of kind jump while
  the player is jumping with the camera above the obstacle's centre plus 0.5, and of
  kind slide while the player is sliding with the camera below the obstacle's centre
  minus 0.5: the game does not end and nothing changes at all, the obstacle included.
  It is not marked collided, so later ticks check it again.
\<close>

theorem cleared_obstacle_unchanged:
  assumes "\<not> collided ob" and "\<not> isBreakable ob"
    and "intersectsBox pb (setFromObject ob)"
    and "obstacleType ob = Jump \<and> isJumping s \<and>
           vy (camera_position s) > vy (position ob) + 0.5 \<or>
         obstacleType ob = Slide \<and> isSliding s \<and>
           vy (camera_position s) < vy (position ob) - 0.5"
  shows "check_obstacle pb ob s = (ob, s) \<and>
         \<not> collided (fst (check_obstacle pb ob s)) \<and>
         isGameOver (snd (check_obstacle pb ob s)) = isGameOver s \<and>
         (obstacles s = [ob] \<and> pb = playerBox s \<longrightarrow> checkCollisions s = s)"
proof -
  from assms(4) have "clears s ob" by (simp add: clears_def)
  with assms(1,2) have c: "check_obstacle pb ob s = (ob, s)"
    using assms(3) by (rule check_obstacle_cleared)
  have "checkCollisions s = s" if "obstacles s = [ob]" and "pb = playerBox s"
    using that c by (simp add: checkCollisions_eq)
  with c assms(1) show ?thesis by simp
qed

lemma playerBox_jumping_over:
  "playerBox jumping_over_example =
     \<lparr>bmin = Vector3 (- 2) 0.75 (- 0.5), bmax = Vector3 2 2.25 0.5\<rparr>"
  by (simp add: playerBox_def jumping_over_example_def initial_game_def playerCollisionSize_def
      setFromCenterAndSize_def Vector3_def LANES_def LANE_WIDTH_def PLAYER_RUN_HEIGHT_def)

lemma jump_at_player_box:
  "setFromObject jump_at_player = \<lparr>bmin = Vector3 (- 2) 0 (- 0.5), bmax = Vector3 2 1 0.5\<rparr>"
  by (simp add: setFromObject_def jump_at_player_def setFromCenterAndSize_def Vector3_def
      LANE_WIDTH_def)

lemma jump_at_player_hit:
  "intersectsBox (playerBox jumping_over_example) (setFromObject jump_at_player)"
  by (simp add: playerBox_jumping_over jump_at_player_box intersectsBox_def Vector3_def)

lemma jumping_over_example_facts:
  "obstacles jumping_over_example = [jump_at_player]"
  "isJumping jumping_over_example"
  "vy (camera_position jumping_over_example) = 6"
  "\<not> isGameOver jumping_over_example"
  by (simp_all add: jumping_over_example_def initial_game_def Vector3_def)

lemma jump_at_player_facts:
  "\<not> collided jump_at_player" "\<not> isBreakable jump_at_player"
  "obstacleType jump_at_player = Jump" "vy (position jump_at_player) = 0.5"
  by (simp_all add: jump_at_player_def Vector3_def)

theorem cleared_obstacle_unchanged_witness:
  "\<not> collided jump_at_player \<and> obstacleType jump_at_player = Jump \<and>
   isJumping jumping_over_example \<and>
   vy (camera_position jumping_over_example) > vy (position jump_at_player) + 0.5 \<and>
   intersectsBox (playerBox jumping_over_example) (setFromObject jump_at_player) \<and>
   check_obstacle (playerBox jumping_over_example) jump_at_player jumping_over_example =
     (jump_at_player, jumping_over_example) \<and>
   checkCollisions jumping_over_example = jumping_over_example"
  using cleared_obstacle_unchanged [of jump_at_player "playerBox jumping_over_example"
      jumping_over_example]
    jump_at_player_hit
  by (simp add: jumping_over_example_facts jump_at_player_facts)

text \<open>
  C2 as stated fails: the obstacle passed over is not marked collided, and the same
  obstacle ends the game once the player has landed on it.
\<close>

theorem cleared_obstacle_not_marked_collided:
  "obstacles jumping_over_example = [jump_at_player] \<and>
   \<not> collided jump_at_player \<and> obstacleType jump_at_player = Jump \<and>
   isJumping jumping_over_example \<and>
   vy (camera_position jumping_over_example) > vy (position jump_at_player) + 0.5 \<and>
   intersectsBox (playerBox jumping_over_example) (setFromObject jump_at_player) \<and>
   \<not> collided (obstacles (checkCollisions jumping_over_example) ! 0) \<and>
   isGameOver (checkCollisions
     ((checkCollisions jumping_over_example)
        \<lparr>isJumping := False,
         camera_position := (camera_position jumping_over_example)\<lparr>vy := PLAYER_RUN_HEIGHT\<rparr>\<rparr>))"
proof -
  have c: "check_obstacle (playerBox jumping_over_example) jump_at_player jumping_over_example =
      (jump_at_player, jumping_over_example)"
    using jump_at_player_hit
    by (simp add: check_obstacle_def jumping_over_example_facts jump_at_player_facts)
  then have same: "checkCollisions jumping_over_example = jumping_over_example"
    by (simp add: checkCollisions_eq jumping_over_example_facts)
  let ?landed = "jumping_over_example
        \<lparr>isJumping := False,
         camera_position := (camera_position jumping_over_example)\<lparr>vy := PLAYER_RUN_HEIGHT\<rparr>\<rparr>"
  have pb: "playerBox ?landed = playerBox jumping_over_example"
    by (simp add: playerBox_def)
  have "check_obstacle (playerBox ?landed) jump_at_player ?landed =
      (jump_at_player\<lparr>collided := True\<rparr>, gameOver ?landed)"
    using jump_at_player_hit
    by (simp add: pb check_obstacle_def jump_at_player_facts)
  then have "isGameOver (checkCollisions ?landed)"
    by (simp add: checkCollisions_eq jumping_over_example_facts gameOver_def)
  with same jump_at_player_hit show ?thesis
    by (simp add: jumping_over_example_facts jump_at_player_facts)
qed

text \<open>
  A remark on the slide branch: the box of a sliding player reaches up to 1, and the
  slide obstacles of \<^verbatim>\<open>createObstacle\<close> hang from 1.5 upwards, so the two never
  intersect and the branch is not reached for them.
\<close>

lemma sliding_player_misses_slide_obstacle:
  assumes "isSliding s" and "vy (position ob) = PLAYER_RUN_HEIGHT + 0.5"
    and "vy (geometry ob) = 1"
  shows "\<not> intersectsBox (playerBox s) (setFromObject ob)"
  using assms
  by (simp add: intersectsBox_def playerBox_def setFromObject_def setFromCenterAndSize_def
      Vector3_def SLIDE_HEIGHT_def COLLISION_SLIDE_HEIGHT_def PLAYER_RUN_HEIGHT_def)

subsection \<open>The spawner\<close>

lemma random_range: "0 \<le> fst (Math_random s) \<and> fst (Math_random s) < 1"
  using Rep_unit_random [of "rand_src s (rand_pos s)"] by (simp add: Math_random_def)

lemma random_state: "snd (Math_random s) = s\<lparr>rand_pos := rand_pos s + 1\<rparr>"
  by (simp add: Math_random_def)

lemma random_index:
  assumes "0 < n"
  shows "nat \<lfloor>fst (Math_random s) * real n\<rfloor> < n"
proof -
  let ?r = "fst (Math_random s)"
  from random_range [of s] have r: "0 \<le> ?r" "?r < 1" by simp_all
  from r(2) assms have "?r * real n < real n" by simp
  then have "\<lfloor>?r * real n\<rfloor> < int n" by (simp add: floor_less_iff)
  moreover from r(1) have "0 \<le> \<lfloor>?r * real n\<rfloor>" by simp
  ultimately show ?thesis by linarith
qed

lemma random_lane: "nat \<lfloor>fst (Math_random s) * 3\<rfloor> < 3"
  using random_index [of 3 s] by simp

lemma laneOptions_nth: "k < 3 \<Longrightarrow> laneOptions ! k = k"
  by (auto simp add: laneOptions_def less_Suc_eq numeral_3_eq_3)

lemma choose_numObstacles_num:
  "fst (choose_numObstacles st s) = 1 \<or>
   fst (choose_numObstacles st s) = 2 \<and> (st = full_combo \<or> st = dodge_only)"
  by (simp add: choose_numObstacles_def split_beta)

lemma choose_numObstacles_state:
  "snd (choose_numObstacles st s) =
     s\<lparr>rand_pos := rand_pos s + (if st = full_combo \<or> st = dodge_only then 1 else 0)\<rparr>"
  by (simp add: choose_numObstacles_def split_beta random_state)

lemma choose_blockedLanes_state:
  "snd (choose_blockedLanes n s) = s\<lparr>rand_pos := rand_pos s + 1\<rparr>"
  by (simp add: choose_blockedLanes_def split_beta random_state Let_def)

lemma choose_blockedLanes_lanes:
  "fst (choose_blockedLanes n s) =
     (if n = 2 then filter (\<lambda>l. l \<noteq> nat \<lfloor>fst (Math_random s) * 3\<rfloor>) [0, 1, 2]
      else [nat \<lfloor>fst (Math_random s) * 3\<rfloor>])"
proof -
  let ?k = "nat \<lfloor>fst (Math_random s) * 3\<rfloor>"
  have k: "laneOptions ! ?k = ?k" using random_lane by (rule laneOptions_nth)
  have l: "laneOptions = [0, 1, 2]" by (simp add: laneOptions_def)
  show ?thesis
    by (simp only: choose_blockedLanes_def split_beta Let_def k)
      (simp add: l del: filter.simps)
qed

lemma filter_open_lane:
  assumes "k < 3"
  shows "length (filter (\<lambda>l. l \<noteq> k) [0, 1, 2::nat]) = 2 \<and>
         distinct (filter (\<lambda>l. l \<noteq> k) [0, 1, 2::nat]) \<and>
         set (filter (\<lambda>l. l \<noteq> k) [0, 1, 2::nat]) = {0, 1, 2} - {k}"
proof -
  from assms consider "k = 0" | "k = 1" | "k = 2" by linarith
  then show ?thesis by cases auto
qed

lemma fold_createObstacle:
  "fold (\<lambda>lane. createObstacle lane ty) lanes s =
     s\<lparr>obstacles := obstacles s @ map (\<lambda>lane. new_mesh lane ty) lanes\<rparr>"
  by (induction lanes arbitrary: s) (simp_all add: createObstacle_def)

lemma spawn_eq:
  "spawn st allowed s =
     s\<lparr>rand_pos := rand_pos s + spawn_draws st,
       obstacles := obstacles s @ map (\<lambda>lane. new_mesh lane (spawn_type st allowed s))
                                   (spawn_lanes st s)\<rparr>"
  by (simp add: spawn_def spawn_lanes_def spawn_type_def spawn_draws_def split_beta Let_def
      fold_createObstacle random_state choose_blockedLanes_state choose_numObstacles_state)

lemma getObstacleTypeForStage_state:
  "snd (getObstacleTypeForStage st s) =
     s\<lparr>rand_pos := rand_pos s + (if st = full_combo then 1 else 0)\<rparr>"
  by (cases st) (simp_all add: getObstacleTypeForStage_def split_beta random_state)

lemma getObstacleTypeForStage_kinds:
  "(st = warmup \<longrightarrow> fst (getObstacleTypeForStage st s) = None) \<and>
   (st \<noteq> warmup \<longrightarrow>
      (\<exists>ty. fst (getObstacleTypeForStage st s) = Some [ty] \<and> ty \<in> set (spec_allowed_kinds st)))"
proof (cases st)
  case full_combo
  have "nat \<lfloor>fst (Math_random s) * real (length allTypes)\<rfloor> < length allTypes"
    by (rule random_index) (simp add: allTypes_def)
  then have "allTypes ! nat \<lfloor>fst (Math_random s) * real (length allTypes)\<rfloor> \<in> set allTypes"
    by (rule nth_mem)
  with full_combo show ?thesis
    by (simp add: getObstacleTypeForStage_def split_beta spec_allowed_kinds_def allTypes_def)
qed (simp_all add: getObstacleTypeForStage_def spec_allowed_kinds_def)

lemma generateObstacles_warmup:
  assumes "type (getStage (progressionManager s)) = warmup"
  shows "generateObstacles delta s = s"
  using assms by (simp add: generateObstacles_def getObstacleTypeForStage_def)

lemma generateObstacles_waiting:
  assumes "type (getStage (progressionManager s)) \<noteq> warmup"
    and "timeSinceLastObstacle s + delta < interval (getStage (progressionManager s)) / currentSpeed s"
  shows "generateObstacles delta s =
     (snd (getObstacleTypeForStage (type (getStage (progressionManager s))) s))
       \<lparr>timeSinceLastObstacle := timeSinceLastObstacle s + delta\<rparr>"
proof -
  let ?st = "type (getStage (progressionManager s))"
  from assms(1) getObstacleTypeForStage_kinds [of ?st s] obtain ty where
    "fst (getObstacleTypeForStage ?st s) = Some [ty]" by blast
  with assms(2) show ?thesis
    by (simp add: generateObstacles_def split_beta Let_def getObstacleTypeForStage_state)
qed

lemma generateObstacles_spawning:
  assumes "type (getStage (progressionManager s)) \<noteq> warmup"
    and "\<not> timeSinceLastObstacle s + delta < interval (getStage (progressionManager s)) / currentSpeed s"
    and "fst (getObstacleTypeForStage (type (getStage (progressionManager s))) s) = Some allowed"
  shows "generateObstacles delta s =
     spawn (type (getStage (progressionManager s))) allowed
       ((snd (getObstacleTypeForStage (type (getStage (progressionManager s))) s))
          \<lparr>timeSinceLastObstacle := 0\<rparr>)"
  using assms(2,3)
  by (simp add: generateObstacles_def split_beta Let_def getObstacleTypeForStage_state)

lemma spawn_lanes_props:
  "distinct (spawn_lanes st s) \<and> list_all (\<lambda>l. l < 3) (spawn_lanes st s) \<and>
   1 \<le> length (spawn_lanes st s) \<and> length (spawn_lanes st s) \<le> 2 \<and>
   (st \<noteq> dodge_only \<and> st \<noteq> full_combo \<longrightarrow> length (spawn_lanes st s) = 1)"
proof -
  let ?n = "fst (choose_numObstacles st s)" and ?s1 = "snd (choose_numObstacles st s)"
  let ?k = "nat \<lfloor>fst (Math_random ?s1) * 3\<rfloor>"
  have k: "?k < 3" by (rule random_lane)
  have lanes: "spawn_lanes st s = (if ?n = 2 then filter (\<lambda>l. l \<noteq> ?k) [0, 1, 2] else [?k])"
    by (simp only: spawn_lanes_def choose_blockedLanes_lanes)
  show ?thesis
  proof (cases "?n = 2")
    case True
    with choose_numObstacles_num [of st s] have "st = full_combo \<or> st = dodge_only" by simp
    moreover have "list_all (\<lambda>l. l < 3) (filter (\<lambda>l. l \<noteq> ?k) [0, 1, 2])"
      by (simp add: list_all_iff)
    ultimately show ?thesis
      using True lanes filter_open_lane [OF k] by auto
  next
    case False
    with lanes k show ?thesis by simp
  qed
qed

lemma open_lane_exists:
  assumes "distinct (ls::nat list)" and "length ls \<le> 2" and "list_all (\<lambda>l. l < 3) ls"
  shows "\<exists>k<3. k \<notin> set ls"
proof (rule ccontr)
  assume "\<not> (\<exists>k<3. k \<notin> set ls)"
  then have "{0, 1, 2} \<subseteq> set ls" by (auto simp add: numeral_3_eq_3)
  then have "card {0, 1, 2::nat} \<le> card (set ls)" by (intro card_mono) simp_all
  with assms(1) have "3 \<le> length ls" by (simp add: distinct_card)
  with assms(2) show False by simp
qed

lemma new_mesh_fields:
  "obstacleType (new_mesh lane ty) = ty"
  "vx (position (new_mesh lane ty)) = LANES ! lane"
  "vz (position (new_mesh lane ty)) = OBSTACLE_SPAWN_Z"
  "\<not> collided (new_mesh lane ty)"
  "in_scene (new_mesh lane ty)"
  "isBreakable (new_mesh lane ty) = (ty = Breakable)"
  by (cases ty; simp add: new_mesh_def Vector3_def)+

lemma LANES_inj: "k < 3 \<Longrightarrow> l < 3 \<Longrightarrow> LANES ! k = LANES ! l \<Longrightarrow> k = l"
  by (auto simp add: LANES_def LANE_WIDTH_def less_Suc_eq numeral_3_eq_3)

lemma spawn_type_single: "spawn_type st [ty] s = ty"
proof -
  let ?s2 = "snd (choose_blockedLanes (fst (choose_numObstacles st s))
                     (snd (choose_numObstacles st s)))"
  from random_index [of 1 ?s2] have "nat \<lfloor>fst (Math_random ?s2)\<rfloor> = 0" by simp
  then show ?thesis by (simp add: spawn_type_def Let_def)
qed

lemma generateObstacles_effect:
  fixes s :: game and delta :: real
  defines "st \<equiv> type (getStage (progressionManager s))"
    and "acc \<equiv> timeSinceLastObstacle s + delta"
    and "period \<equiv> interval (getStage (progressionManager s)) / currentSpeed s"
  shows "\<exists>ls ty rp t.
     generateObstacles delta s =
       s\<lparr>rand_pos := rp, timeSinceLastObstacle := t,
         obstacles := obstacles s @ map (\<lambda>l. new_mesh l ty) ls\<rparr> \<and>
     distinct ls \<and> list_all (\<lambda>l. l < 3) ls \<and> length ls \<le> 2 \<and>
     (st \<noteq> dodge_only \<and> st \<noteq> full_combo \<longrightarrow> length ls \<le> 1) \<and>
     (ls \<noteq> [] \<longrightarrow> ty \<in> set (spec_allowed_kinds st)) \<and>
     (st = warmup \<longrightarrow> ls = [] \<and> t = timeSinceLastObstacle s) \<and>
     (st \<noteq> warmup \<and> acc < period \<longrightarrow> ls = [] \<and> t = acc) \<and>
     (st \<noteq> warmup \<and> \<not> acc < period \<longrightarrow> ls \<noteq> [] \<and> t = 0)"
proof -
  consider (quiet) "st = warmup" | (waiting) "st \<noteq> warmup" "acc < period"
    | (spawning) "st \<noteq> warmup" "\<not> acc < period" by blast
  then show ?thesis
  proof cases
    case quiet
    then have "generateObstacles delta s = s"
      unfolding st_def by (rule generateObstacles_warmup)
    then have "generateObstacles delta s =
       s\<lparr>rand_pos := rand_pos s, timeSinceLastObstacle := timeSinceLastObstacle s,
         obstacles := obstacles s @ map (\<lambda>l. new_mesh l Jump) []\<rparr>" by simp
    with quiet show ?thesis
      by (intro exI [of _ "[]"] exI [of _ Jump] exI [of _ "rand_pos s"]
          exI [of _ "timeSinceLastObstacle s"]) simp
  next
    case waiting
    then have "generateObstacles delta s =
       (snd (getObstacleTypeForStage st s))\<lparr>timeSinceLastObstacle := acc\<rparr>"
      unfolding st_def acc_def period_def by (rule generateObstacles_waiting)
    then have "generateObstacles delta s =
       s\<lparr>rand_pos := rand_pos s + (if st = full_combo then 1 else 0),
         timeSinceLastObstacle := acc,
         obstacles := obstacles s @ map (\<lambda>l. new_mesh l Jump) []\<rparr>"
      by (simp add: getObstacleTypeForStage_state)
    with waiting show ?thesis
      by (intro exI [of _ "[]"] exI [of _ Jump]
          exI [of _ "rand_pos s + (if st = full_combo then 1 else 0)"] exI [of _ acc]) simp
  next
    case spawning
    from spawning(1) getObstacleTypeForStage_kinds [of st s] obtain ty0 where
      ty0: "fst (getObstacleTypeForStage st s) = Some [ty0]" "ty0 \<in> set (spec_allowed_kinds st)"
      by blast
    let ?s1 = "(snd (getObstacleTypeForStage st s))\<lparr>timeSinceLastObstacle := 0\<rparr>"
    let ?ls = "spawn_lanes st ?s1" and ?ty = "spawn_type st [ty0] ?s1"
    have "generateObstacles delta s = spawn st [ty0] ?s1"
      using spawning ty0(1) unfolding st_def acc_def period_def
      by (rule generateObstacles_spawning)
    then have eq: "generateObstacles delta s =
       s\<lparr>rand_pos := rand_pos s + (if st = full_combo then 1 else 0) + spawn_draws st,
         timeSinceLastObstacle := 0,
         obstacles := obstacles s @ map (\<lambda>l. new_mesh l ?ty) ?ls\<rparr>"
      by (simp add: spawn_eq getObstacleTypeForStage_state)
    have ty: "?ty = ty0" by (rule spawn_type_single)
    from spawn_lanes_props [of st ?s1] have p: "distinct ?ls" "list_all (\<lambda>l. l < 3) ?ls"
      "1 \<le> length ?ls" "length ?ls \<le> 2"
      "st \<noteq> dodge_only \<and> st \<noteq> full_combo \<longrightarrow> length ?ls = 1" by blast+
    from p(3) have ne: "?ls \<noteq> []" by auto
    from eq p ne ty ty0(2) spawning show ?thesis
      by (intro exI [of _ ?ls] exI [of _ ?ty]
          exI [of _ "rand_pos s + (if st = full_combo then 1 else 0) + spawn_draws st"]
          exI [of _ 0]) simp
  qed
qed

lemma floor3_intervals:
  assumes "0 \<le> r" and "r < (1::real)"
  shows "(nat \<lfloor>r * 3\<rfloor> = 0 \<longleftrightarrow> r < 1 / 3) \<and>
         (nat \<lfloor>r * 3\<rfloor> = 1 \<longleftrightarrow> 1 / 3 \<le> r \<and> r < 2 / 3) \<and>
         (nat \<lfloor>r * 3\<rfloor> = 2 \<longleftrightarrow> 2 / 3 \<le> r)"
proof -
  from assms(1) have nn: "0 \<le> \<lfloor>r * 3\<rfloor>" by simp
  have a: "\<lfloor>r * 3\<rfloor> = 0 \<longleftrightarrow> r < 1 / 3"
    using assms by (simp add: floor_eq_iff)
  have b: "\<lfloor>r * 3\<rfloor> = 1 \<longleftrightarrow> 1 / 3 \<le> r \<and> r < 2 / 3"
    by (simp add: floor_eq_iff)
  have c: "\<lfloor>r * 3\<rfloor> = 2 \<longleftrightarrow> 2 / 3 \<le> r"
    using assms by (simp add: floor_eq_iff)
  from nn have "nat \<lfloor>r * 3\<rfloor> = 0 \<longleftrightarrow> \<lfloor>r * 3\<rfloor> = 0"
    and "nat \<lfloor>r * 3\<rfloor> = 1 \<longleftrightarrow> \<lfloor>r * 3\<rfloor> = 1"
    and "nat \<lfloor>r * 3\<rfloor> = 2 \<longleftrightarrow> \<lfloor>r * 3\<rfloor> = 2"
    by linarith+
  with a b c show ?thesis by simp
qed

text \<open>
  C6. One call of the spawner appends to the array obstacles of one kind, taken from
  the kinds the rule of the active stage allows (none in the warmup); they are fresh and
  sit in distinct lanes; there is one of them at a spawn event under a rule other than
  \<open>dodge_only\<close> and \<open>full_combo\<close>, and one or two under these, never three, so a
  lane stays open. When two lanes are blocked, the open lane is \<open>\<lfloor>3 r\<rfloor>\<close> for the
  random number \<open>r\<close> drawn for it: each lane has a third of the unit interval.
\<close>

theorem spawn_event_kinds_and_lanes:
  "obstacles (generateObstacles delta s) = obstacles s @ spawned delta s \<and>
   list_all (\<lambda>ob. obstacleType ob \<in> set (spec_allowed_kinds (type (getStage (progressionManager s)))))
     (spawned delta s) \<and>
   (\<exists>ty. list_all (\<lambda>ob. obstacleType ob = ty) (spawned delta s)) \<and>
   list_all (\<lambda>ob. isBreakable ob = (obstacleType ob = Breakable) \<and> \<not> collided ob \<and>
                  vz (position ob) = OBSTACLE_SPAWN_Z) (spawned delta s) \<and>
   (type (getStage (progressionManager s)) = warmup \<longrightarrow> spawned delta s = []) \<and>
   length (spawned delta s) \<le> 2 \<and>
   (type (getStage (progressionManager s)) \<noteq> dodge_only \<and>
    type (getStage (progressionManager s)) \<noteq> full_combo \<longrightarrow> length (spawned delta s) \<le> 1) \<and>
   (type (getStage (progressionManager s)) \<noteq> warmup \<and>
    \<not> timeSinceLastObstacle s + delta
        < interval (getStage (progressionManager s)) / currentSpeed s \<longrightarrow>
      1 \<le> length (spawned delta s)) \<and>
   (\<exists>lanes. distinct lanes \<and> list_all (\<lambda>l. l < 3) lanes \<and>
      map (\<lambda>ob. vx (position ob)) (spawned delta s) = map (\<lambda>l. LANES ! l) lanes) \<and>
   (\<exists>k<3. list_all (\<lambda>ob. vx (position ob) \<noteq> LANES ! k) (spawned delta s)) \<and>
   fst (choose_blockedLanes 2 s) =
     filter (\<lambda>l. l \<noteq> nat \<lfloor>fst (Math_random s) * 3\<rfloor>) [0, 1, 2] \<and>
   (nat \<lfloor>fst (Math_random s) * 3\<rfloor> = 0 \<longleftrightarrow> fst (Math_random s) < 1 / 3) \<and>
   (nat \<lfloor>fst (Math_random s) * 3\<rfloor> = 1 \<longleftrightarrow>
      1 / 3 \<le> fst (Math_random s) \<and> fst (Math_random s) < 2 / 3) \<and>
   (nat \<lfloor>fst (Math_random s) * 3\<rfloor> = 2 \<longleftrightarrow> 2 / 3 \<le> fst (Math_random s))"
proof -
  let ?st = "type (getStage (progressionManager s))"
  let ?new = "spawned delta s"
  from generateObstacles_effect [of delta s] obtain ls ty rp t where
    eq: "generateObstacles delta s =
       s\<lparr>rand_pos := rp, timeSinceLastObstacle := t,
         obstacles := obstacles s @ map (\<lambda>l. new_mesh l ty) ls\<rparr>"
    and ls: "distinct ls" "list_all (\<lambda>l. l < 3) ls" "length ls \<le> 2"
    and one: "?st \<noteq> dodge_only \<and> ?st \<noteq> full_combo \<longrightarrow> length ls \<le> 1"
    and kind: "ls \<noteq> [] \<longrightarrow> ty \<in> set (spec_allowed_kinds ?st)"
    and quiet: "?st = warmup \<longrightarrow> ls = [] \<and> t = timeSinceLastObstacle s"
    and spawning: "?st \<noteq> warmup \<and>
        \<not> timeSinceLastObstacle s + delta
           < interval (getStage (progressionManager s)) / currentSpeed s \<longrightarrow>
        ls \<noteq> [] \<and> t = 0"
    by blast
  have new: "?new = map (\<lambda>l. new_mesh l ty) ls"
    by (simp add: spawned_def eq)
  have 1: "obstacles (generateObstacles delta s) = obstacles s @ ?new"
    by (simp add: new eq)
  have 2: "list_all (\<lambda>ob. obstacleType ob \<in> set (spec_allowed_kinds ?st)) ?new"
    using kind by (cases ls) (simp_all add: new list_all_iff new_mesh_fields)
  have "list_all (\<lambda>ob. obstacleType ob = ty) ?new"
    by (simp add: new list_all_iff new_mesh_fields)
  then have 3: "\<exists>ty. list_all (\<lambda>ob. obstacleType ob = ty) ?new" ..
  have 4: "list_all (\<lambda>ob. isBreakable ob = (obstacleType ob = Breakable) \<and> \<not> collided ob \<and>
                  vz (position ob) = OBSTACLE_SPAWN_Z) ?new"
    by (simp add: new list_all_iff new_mesh_fields)
  have 5: "?st = warmup \<longrightarrow> ?new = []" using quiet by (simp add: new)
  have 6: "length ?new \<le> 2" using ls(3) by (simp add: new)
  have 7: "?st \<noteq> dodge_only \<and> ?st \<noteq> full_combo \<longrightarrow> length ?new \<le> 1"
    using one by (simp add: new)
  have 8: "?st \<noteq> warmup \<and>
        \<not> timeSinceLastObstacle s + delta
           < interval (getStage (progressionManager s)) / currentSpeed s \<longrightarrow>
        1 \<le> length ?new"
  proof
    assume "?st \<noteq> warmup \<and>
        \<not> timeSinceLastObstacle s + delta
           < interval (getStage (progressionManager s)) / currentSpeed s"
    with spawning have "ls \<noteq> []" by blast
    then show "1 \<le> length ?new" by (cases ls) (simp_all add: new)
  qed
  have "map (\<lambda>ob. vx (position ob)) ?new = map (\<lambda>l. LANES ! l) ls"
    by (simp add: new new_mesh_fields comp_def)
  with ls(1,2) have 9: "\<exists>lanes. distinct lanes \<and> list_all (\<lambda>l. l < 3) lanes \<and>
      map (\<lambda>ob. vx (position ob)) ?new = map (\<lambda>l. LANES ! l) lanes" by blast
  from open_lane_exists [OF ls(1) ls(3) ls(2)] obtain k where k: "k < 3" "k \<notin> set ls" by blast
  have "list_all (\<lambda>ob. vx (position ob) \<noteq> LANES ! k) ?new"
    unfolding new list_all_iff
  proof
    fix ob assume "ob \<in> set (map (\<lambda>l. new_mesh l ty) ls)"
    then obtain l where l: "l \<in> set ls" "ob = new_mesh l ty" by auto
    from l(1) ls(2) have "l < 3" by (simp add: list_all_iff)
    with k l(1) have "LANES ! l \<noteq> LANES ! k" using LANES_inj [of l k] by blast
    with l(2) show "vx (position ob) \<noteq> LANES ! k" by (simp add: new_mesh_fields)
  qed
  with k(1) have 10: "\<exists>k<3. list_all (\<lambda>ob. vx (position ob) \<noteq> LANES ! k) ?new" by blast
  have 11: "fst (choose_blockedLanes 2 s) =
     filter (\<lambda>l. l \<noteq> nat \<lfloor>fst (Math_random s) * 3\<rfloor>) [0, 1, 2]"
    by (simp only: choose_blockedLanes_lanes refl if_True)
  from random_range [of s] have r: "0 \<le> fst (Math_random s)" "fst (Math_random s) < 1"
    by simp_all
  note 12 = floor3_intervals [OF r]
  from 1 2 3 4 5 6 7 8 9 10 11 12 show ?thesis by blast
qed

lemma Rep_example_random:
  "Rep_unit_random (Abs_unit_random (7 / 10)) = 7 / 10"
  "Rep_unit_random (Abs_unit_random (1 / 2)) = 1 / 2"
  "Rep_unit_random (Abs_unit_random 0) = 0"
  by (simp_all add: Abs_unit_random_inverse)

lemma example_stages:
  "type (getStage (progressionManager dodge_example)) = dodge_only"
  "interval (getStage (progressionManager dodge_example)) = 25"
  "currentSpeed dodge_example = 15" "timeSinceLastObstacle dodge_example = 1.6"
  "obstacles dodge_example = []"
  "type (getStage (progressionManager jump_stage_example)) = jump_only"
  "interval (getStage (progressionManager jump_stage_example)) = 30"
  "currentSpeed jump_stage_example = 15" "timeSinceLastObstacle jump_stage_example = 1.6"
  "obstacles jump_stage_example = []"
  by (simp_all add: dodge_example_def jump_stage_example_def initial_game_def getStage_def
      PROGRESSION_STAGES_def RUN_SPEED_BASE_def)

lemma dodge_example_spawned:
  "spawned 0.1 dodge_example = [new_mesh 0 Wall, new_mesh 2 Wall]"
proof -
  have "generateObstacles 0.1 dodge_example =
      spawn dodge_only [Wall] (dodge_example\<lparr>timeSinceLastObstacle := 0\<rparr>)"
    by (simp add: generateObstacles_def getObstacleTypeForStage_def example_stages Let_def)
  moreover have "spawn_lanes dodge_only (dodge_example\<lparr>timeSinceLastObstacle := 0\<rparr>) = [0, 2]"
    by (simp add: spawn_lanes_def choose_numObstacles_def choose_blockedLanes_def
        Math_random_def dodge_example_def initial_game_def Rep_example_random laneOptions_def
        split_beta Let_def)
  ultimately show ?thesis
    by (simp add: spawned_def spawn_eq spawn_type_single example_stages)
qed

lemma jump_stage_example_spawned:
  "spawned 0.5 jump_stage_example = [new_mesh 1 Jump]"
proof -
  have "generateObstacles 0.5 jump_stage_example =
      spawn jump_only [Jump] (jump_stage_example\<lparr>timeSinceLastObstacle := 0\<rparr>)"
    by (simp add: generateObstacles_def getObstacleTypeForStage_def example_stages Let_def)
  moreover have "spawn_lanes jump_only (jump_stage_example\<lparr>timeSinceLastObstacle := 0\<rparr>) = [1]"
    by (simp add: spawn_lanes_def choose_numObstacles_def choose_blockedLanes_def
        Math_random_def jump_stage_example_def initial_game_def Rep_example_random
        laneOptions_def split_beta Let_def)
  ultimately show ?thesis
    by (simp add: spawned_def spawn_eq spawn_type_single example_stages)
qed

theorem spawn_event_kinds_and_lanes_witness:
  "type (getStage (progressionManager dodge_example)) = dodge_only \<and>
   \<not> timeSinceLastObstacle dodge_example + 0.1
      < interval (getStage (progressionManager dodge_example)) / currentSpeed dodge_example \<and>
   spawned 0.1 dodge_example = [new_mesh 0 Wall, new_mesh 2 Wall] \<and>
   1 \<le> length (spawned 0.1 dodge_example) \<and> length (spawned 0.1 dodge_example) \<le> 2 \<and>
   type (getStage (progressionManager jump_stage_example)) = jump_only \<and>
   spawned 0.5 jump_stage_example = [new_mesh 1 Jump] \<and>
   length (spawned 0.5 jump_stage_example) \<le> 1"
  using spawn_event_kinds_and_lanes [of "0.1" dodge_example]
    spawn_event_kinds_and_lanes [of "0.5" jump_stage_example]
    dodge_example_spawned jump_stage_example_spawned
  by (simp add: example_stages)

text \<open>
  C7 (as amended). In every stage but the warmup, and with a positive speed, a call of the
  spawner adds the tick's delta to the accumulator; it spawns exactly when the
  accumulator has reached \<open>interval / currentSpeed\<close>, and then resets the accumulator
  to zero; below the period it creates nothing. In the warmup the call returns at
  once: the accumulator is not touched and nothing is created.
\<close>

theorem spawner_accumulator:
  assumes "0 < currentSpeed s"
  shows "(type (getStage (progressionManager s)) \<noteq> warmup \<and>
          timeSinceLastObstacle s + delta
            < interval (getStage (progressionManager s)) / currentSpeed s \<longrightarrow>
            timeSinceLastObstacle (generateObstacles delta s) = timeSinceLastObstacle s + delta \<and>
            obstacles (generateObstacles delta s) = obstacles s) \<and>
         (type (getStage (progressionManager s)) \<noteq> warmup \<and>
          \<not> timeSinceLastObstacle s + delta
            < interval (getStage (progressionManager s)) / currentSpeed s \<longrightarrow>
            timeSinceLastObstacle (generateObstacles delta s) = 0 \<and>
            length (obstacles s) < length (obstacles (generateObstacles delta s))) \<and>
         (type (getStage (progressionManager s)) = warmup \<longrightarrow>
            generateObstacles delta s = s)"
proof -
  let ?st = "type (getStage (progressionManager s))"
  from generateObstacles_effect [of delta s] obtain ls ty rp t where
    eq: "generateObstacles delta s =
       s\<lparr>rand_pos := rp, timeSinceLastObstacle := t,
         obstacles := obstacles s @ map (\<lambda>l. new_mesh l ty) ls\<rparr>"
    and waiting: "?st \<noteq> warmup \<and>
        timeSinceLastObstacle s + delta
           < interval (getStage (progressionManager s)) / currentSpeed s \<longrightarrow>
        ls = [] \<and> t = timeSinceLastObstacle s + delta"
    and spawning: "?st \<noteq> warmup \<and>
        \<not> timeSinceLastObstacle s + delta
           < interval (getStage (progressionManager s)) / currentSpeed s \<longrightarrow>
        ls \<noteq> [] \<and> t = 0"
    by blast
  have a: "?st \<noteq> warmup \<and>
          timeSinceLastObstacle s + delta
            < interval (getStage (progressionManager s)) / currentSpeed s \<longrightarrow>
            timeSinceLastObstacle (generateObstacles delta s) = timeSinceLastObstacle s + delta \<and>
            obstacles (generateObstacles delta s) = obstacles s"
    using waiting by (simp add: eq)
  have b: "?st \<noteq> warmup \<and>
          \<not> timeSinceLastObstacle s + delta
            < interval (getStage (progressionManager s)) / currentSpeed s \<longrightarrow>
            timeSinceLastObstacle (generateObstacles delta s) = 0 \<and>
            length (obstacles s) < length (obstacles (generateObstacles delta s))"
    using spawning by (simp add: eq)
  have c: "?st = warmup \<longrightarrow> generateObstacles delta s = s"
    using generateObstacles_warmup [of s delta] by blast
  from a b c show ?thesis by blast
qed

theorem spawner_accumulator_witness:
  "0 < currentSpeed jump_stage_example \<and>
   type (getStage (progressionManager jump_stage_example)) = jump_only \<and>
   timeSinceLastObstacle jump_stage_example + 0.25
     < interval (getStage (progressionManager jump_stage_example))
       / currentSpeed jump_stage_example \<and>
   timeSinceLastObstacle (generateObstacles 0.25 jump_stage_example) = 1.85 \<and>
   obstacles (generateObstacles 0.25 jump_stage_example) = [] \<and>
   \<not> timeSinceLastObstacle jump_stage_example + 0.5
     < interval (getStage (progressionManager jump_stage_example))
       / currentSpeed jump_stage_example \<and>
   timeSinceLastObstacle (generateObstacles 0.5 jump_stage_example) = 0 \<and>
   0 < length (obstacles (generateObstacles 0.5 jump_stage_example))"
  using spawner_accumulator [of jump_stage_example "0.25"]
    spawner_accumulator [of jump_stage_example "0.5"]
  by (simp add: example_stages)

text \<open>
  C7 as stated fails: on a warmup tick the accumulator does not take up the tick's
  delta.
\<close>

theorem warmup_tick_does_not_accumulate:
  "type (getStage (progressionManager (initial_game 0 (\<lambda>i. Abs_unit_random 0.5)))) = warmup \<and>
   timeSinceLastObstacle (initial_game 0 (\<lambda>i. Abs_unit_random 0.5)) = 0 \<and>
   timeSinceLastObstacle (generateObstacles 1 (initial_game 0 (\<lambda>i. Abs_unit_random 0.5))) = 0 \<and>
   timeSinceLastObstacle (generateObstacles 1 (initial_game 0 (\<lambda>i. Abs_unit_random 0.5)))
     \<noteq> timeSinceLastObstacle (initial_game 0 (\<lambda>i. Abs_unit_random 0.5)) + 1"
  by (simp add: generateObstacles_def getObstacleTypeForStage_def initial_game_def getStage_def
      new_ProgressionManager_def PROGRESSION_STAGES_def)

subsection \<open>The frame as a composition of phases\<close>

lemma getDelta_keeps:
  "score (snd (getDelta s)) = score s"
  "progressionManager (snd (getDelta s)) = progressionManager s"
  "isGameOver (snd (getDelta s)) = isGameOver s"
  "isPaused (snd (getDelta s)) = isPaused s"
  "final_score (snd (getDelta s)) = final_score s"
  "timers (snd (getDelta s)) = timers s"
  "now (snd (getDelta s)) = now s"
  "isJumping (snd (getDelta s)) = isJumping s"
  "isSliding (snd (getDelta s)) = isSliding s"
  "isPunching (snd (getDelta s)) = isPunching s"
  "jumpStartTime (snd (getDelta s)) = jumpStartTime s"
  "currentLane (snd (getDelta s)) = currentLane s"
  "obstacles (snd (getDelta s)) = obstacles s"
  "debrisParticles (snd (getDelta s)) = debrisParticles s"
  "frame_requested (snd (getDelta s)) = frame_requested s"
  "timeSinceLastObstacle (snd (getDelta s)) = timeSinceLastObstacle s"
  by (simp_all add: getDelta_def clock_start_def Let_def)

lemma getElapsedTime_keeps:
  "score (snd (getElapsedTime s)) = score s"
  "progressionManager (snd (getElapsedTime s)) = progressionManager s"
  "isGameOver (snd (getElapsedTime s)) = isGameOver s"
  "isPaused (snd (getElapsedTime s)) = isPaused s"
  "final_score (snd (getElapsedTime s)) = final_score s"
  "timers (snd (getElapsedTime s)) = timers s"
  "now (snd (getElapsedTime s)) = now s"
  "isJumping (snd (getElapsedTime s)) = isJumping s"
  "isSliding (snd (getElapsedTime s)) = isSliding s"
  "isPunching (snd (getElapsedTime s)) = isPunching s"
  "jumpStartTime (snd (getElapsedTime s)) = jumpStartTime s"
  "currentLane (snd (getElapsedTime s)) = currentLane s"
  "obstacles (snd (getElapsedTime s)) = obstacles s"
  "debrisParticles (snd (getElapsedTime s)) = debrisParticles s"
  "frame_requested (snd (getElapsedTime s)) = frame_requested s"
  "timeSinceLastObstacle (snd (getElapsedTime s)) = timeSinceLastObstacle s"
  by (simp_all add: getElapsedTime_def split_beta getDelta_keeps)

lemma jump_pose_keeps:
  "score (jump_pose e s) = score s"
  "progressionManager (jump_pose e s) = progressionManager s"
  "isGameOver (jump_pose e s) = isGameOver s"
  "isPaused (jump_pose e s) = isPaused s"
  "final_score (jump_pose e s) = final_score s"
  "timers (jump_pose e s) = timers s"
  "now (jump_pose e s) = now s"
  "isSliding (jump_pose e s) = isSliding s"
  "isPunching (jump_pose e s) = isPunching s"
  "currentLane (jump_pose e s) = currentLane s"
  "obstacles (jump_pose e s) = obstacles s"
  "debrisParticles (jump_pose e s) = debrisParticles s"
  "frame_requested (jump_pose e s) = frame_requested s"
  "timeSinceLastObstacle (jump_pose e s) = timeSinceLastObstacle s"
  "clock (jump_pose e s) = clock s"
  "currentSpeed (jump_pose e s) = currentSpeed s"
  by (simp_all add: jump_pose_def Let_def)

lemma jump_pose_isJumping:
  "isJumping (jump_pose e s) = (isJumping s \<and> e - jumpStartTime s < JUMP_DURATION)"
  by (simp add: jump_pose_def Let_def JUMP_DURATION_def)

lemma slide_pose_keeps:
  "score (slide_pose s) = score s"
  "progressionManager (slide_pose s) = progressionManager s"
  "isGameOver (slide_pose s) = isGameOver s"
  "isPaused (slide_pose s) = isPaused s"
  "final_score (slide_pose s) = final_score s"
  "timers (slide_pose s) = timers s"
  "now (slide_pose s) = now s"
  "isJumping (slide_pose s) = isJumping s"
  "isSliding (slide_pose s) = isSliding s"
  "isPunching (slide_pose s) = isPunching s"
  "currentLane (slide_pose s) = currentLane s"
  "obstacles (slide_pose s) = obstacles s"
  "debrisParticles (slide_pose s) = debrisParticles s"
  "frame_requested (slide_pose s) = frame_requested s"
  "timeSinceLastObstacle (slide_pose s) = timeSinceLastObstacle s"
  "clock (slide_pose s) = clock s"
  "currentSpeed (slide_pose s) = currentSpeed s"
  by (simp_all add: slide_pose_def)

lemma move_world_keeps:
  "score (move_world d tr s) = score s"
  "progressionManager (move_world d tr s) = progressionManager s"
  "isGameOver (move_world d tr s) = isGameOver s"
  "isPaused (move_world d tr s) = isPaused s"
  "final_score (move_world d tr s) = final_score s"
  "timers (move_world d tr s) = timers s"
  "now (move_world d tr s) = now s"
  "isJumping (move_world d tr s) = isJumping s"
  "isSliding (move_world d tr s) = isSliding s"
  "isPunching (move_world d tr s) = isPunching s"
  "currentLane (move_world d tr s) = currentLane s"
  "frame_requested (move_world d tr s) = frame_requested s"
  "timeSinceLastObstacle (move_world d tr s) = timeSinceLastObstacle s"
  "clock (move_world d tr s) = clock s"
  "currentSpeed (move_world d tr s) = currentSpeed s"
  by (simp_all add: move_world_def updateDebris_def Let_def)

lemma move_world_lists:
  "obstacles (move_world d tr s) =
     filter (\<lambda>ob. \<not> vz (position ob) > OBSTACLE_CULL_Z) (map (move_obstacle tr) (obstacles s))"
  "debrisParticles (move_world d tr s) =
     List.map_filter (update_particles d)
       (map (\<lambda>p. p\<lparr>debris_z := debris_z p + tr\<rparr>) (debrisParticles s))"
  by (simp_all add: move_world_def updateDebris_def Let_def)

lemma before_collisions_keeps:
  "score (before_collisions s) = score s"
  "progressionManager (before_collisions s) = progressionManager s"
  "isGameOver (before_collisions s) = isGameOver s"
  "isPaused (before_collisions s) = isPaused s"
  "final_score (before_collisions s) = final_score s"
  "timers (before_collisions s) = timers s"
  "now (before_collisions s) = now s"
  "isSliding (before_collisions s) = isSliding s"
  "isPunching (before_collisions s) = isPunching s"
  "currentLane (before_collisions s) = currentLane s"
  "timeSinceLastObstacle (before_collisions s) = timeSinceLastObstacle s"
  "frame_requested (before_collisions s)"
  "currentSpeed (before_collisions s) = frame_speed s"
  by (simp_all add: before_collisions_def Let_def move_world_keeps slide_pose_keeps
      jump_pose_keeps getElapsedTime_keeps getDelta_keeps)

lemma before_collisions_lists:
  "obstacles (before_collisions s) =
     filter (\<lambda>ob. \<not> vz (position ob) > OBSTACLE_CULL_Z)
       (map (move_obstacle (frame_speed s * frame_delta s)) (obstacles s))"
  "debrisParticles (before_collisions s) =
     List.map_filter (update_particles (frame_delta s))
       (map (\<lambda>p. p\<lparr>debris_z := debris_z p + frame_speed s * frame_delta s\<rparr>) (debrisParticles s))"
  "isJumping (before_collisions s) =
     (isJumping s \<and> frame_elapsed s - jumpStartTime s < JUMP_DURATION)"
  by (simp_all add: before_collisions_def Let_def move_world_keeps move_world_lists
      slide_pose_keeps jump_pose_keeps jump_pose_isJumping getElapsedTime_keeps getDelta_keeps)

lemma animate_phases:
  assumes "\<not> isPaused s0" and "\<not> isGameOver s0"
  shows "animate s0 =
     (let s6 = checkCollisions (before_collisions s0);
          s7 = s6\<lparr>progressionManager := update (score s6) (progressionManager s6)\<rparr>;
          s8 = generateObstacles (frame_delta s0) s7;
          s9 = s8\<lparr>score := score s8 + frame_speed s0 * frame_delta s0 * 0.1\<rparr>
      in s9\<lparr>score_counter := \<lfloor>score s9\<rfloor>\<rparr>)"
  using assms
  by (simp add: animate_def before_collisions_def frame_delta_def frame_elapsed_def
      frame_speed_def Let_def split_beta slide_pose_keeps jump_pose_keeps)

lemma animate_inert:
  assumes "isPaused s \<or> isGameOver s"
  shows "animate s = s\<lparr>frame_requested := True\<rparr>"
  using assms by (auto simp add: animate_def)

lemma evolves_checkCollisions: "evolves s (checkCollisions s)"
  using evolves_forEach_obstacle [of s "playerBox s" "obstacles s"]
  by (simp add: checkCollisions_eq evolves_def)

lemma checkCollisions_visits:
  assumes "i < length (obstacles s)"
  shows "\<exists>s1. evolves s s1 \<and>
           obstacles (checkCollisions s) ! i =
             fst (check_obstacle (playerBox s) (obstacles s ! i) s1)"
  using forEach_obstacle_nth [OF assms, of s "playerBox s"]
  by (auto simp add: checkCollisions_eq)

lemma generateObstacles_keeps:
  "score (generateObstacles d s) = score s"
  "progressionManager (generateObstacles d s) = progressionManager s"
  "isGameOver (generateObstacles d s) = isGameOver s"
  "isPaused (generateObstacles d s) = isPaused s"
  "final_score (generateObstacles d s) = final_score s"
  "frame_requested (generateObstacles d s) = frame_requested s"
  "timers (generateObstacles d s) = timers s"
  "now (generateObstacles d s) = now s"
  "clock (generateObstacles d s) = clock s"
  "isJumping (generateObstacles d s) = isJumping s"
  "isSliding (generateObstacles d s) = isSliding s"
  "isPunching (generateObstacles d s) = isPunching s"
  "debrisParticles (generateObstacles d s) = debrisParticles s"
  "currentLane (generateObstacles d s) = currentLane s"
  "currentSpeed (generateObstacles d s) = currentSpeed s"
proof -
  from generateObstacles_effect [of d s] obtain ls ty rp t where
    eq: "generateObstacles d s =
       s\<lparr>rand_pos := rp, timeSinceLastObstacle := t,
         obstacles := obstacles s @ map (\<lambda>l. new_mesh l ty) ls\<rparr>"
    by blast
  show "score (generateObstacles d s) = score s"
    "progressionManager (generateObstacles d s) = progressionManager s"
    "isGameOver (generateObstacles d s) = isGameOver s"
    "isPaused (generateObstacles d s) = isPaused s"
    "final_score (generateObstacles d s) = final_score s"
    "frame_requested (generateObstacles d s) = frame_requested s"
    "timers (generateObstacles d s) = timers s"
    "now (generateObstacles d s) = now s"
    "clock (generateObstacles d s) = clock s"
    "isJumping (generateObstacles d s) = isJumping s"
    "isSliding (generateObstacles d s) = isSliding s"
    "isPunching (generateObstacles d s) = isPunching s"
    "debrisParticles (generateObstacles d s) = debrisParticles s"
    "currentLane (generateObstacles d s) = currentLane s"
    "currentSpeed (generateObstacles d s) = currentSpeed s"
    by (simp_all add: eq)
qed

lemma animate_score:
  assumes "\<not> isPaused s" and "\<not> isGameOver s"
  shows "score (animate s) = score s + frame_speed s * frame_delta s * 0.1"
    and "score_counter (animate s) = \<lfloor>score (animate s)\<rfloor>"
    and "progressionManager (animate s) = update (score s) (progressionManager s)"
proof -
  have "evolves (before_collisions s) (checkCollisions (before_collisions s))"
    by (rule evolves_checkCollisions)
  then have s6: "score (checkCollisions (before_collisions s)) = score s"
    "progressionManager (checkCollisions (before_collisions s)) = progressionManager s"
    by (simp_all add: evolves_def before_collisions_keeps)
  note phases = animate_phases [OF assms]
  show "score (animate s) = score s + frame_speed s * frame_delta s * 0.1"
    by (simp add: phases Let_def generateObstacles_keeps s6)
  show "score_counter (animate s) = \<lfloor>score (animate s)\<rfloor>"
    by (simp add: phases Let_def)
  show "progressionManager (animate s) = update (score s) (progressionManager s)"
    by (simp add: phases Let_def generateObstacles_keeps s6)
qed

lemma animate_after_collisions:
  assumes "\<not> isPaused s" and "\<not> isGameOver s"
  shows "isGameOver (animate s) = isGameOver (checkCollisions (before_collisions s))"
    and "final_score (animate s) = final_score (checkCollisions (before_collisions s))"
    and "frame_requested (animate s) = frame_requested (checkCollisions (before_collisions s))"
    and "obstacles (animate s) =
           obstacles (generateObstacles (frame_delta s)
             ((checkCollisions (before_collisions s))
                \<lparr>progressionManager := update (score s) (progressionManager s)\<rparr>))"
proof -
  have "evolves (before_collisions s) (checkCollisions (before_collisions s))"
    by (rule evolves_checkCollisions)
  then have s6: "score (checkCollisions (before_collisions s)) = score s"
    "progressionManager (checkCollisions (before_collisions s)) = progressionManager s"
    by (simp_all add: evolves_def before_collisions_keeps)
  note phases = animate_phases [OF assms]
  show "isGameOver (animate s) = isGameOver (checkCollisions (before_collisions s))"
    "final_score (animate s) = final_score (checkCollisions (before_collisions s))"
    "frame_requested (animate s) = frame_requested (checkCollisions (before_collisions s))"
    "obstacles (animate s) =
           obstacles (generateObstacles (frame_delta s)
             ((checkCollisions (before_collisions s))
                \<lparr>progressionManager := update (score s) (progressionManager s)\<rparr>))"
    by (simp_all add: phases Let_def generateObstacles_keeps s6)
qed

lemma game_over_in_collisions:
  assumes "\<not> isGameOver s" and "isGameOver (checkCollisions s)"
  shows "final_score (checkCollisions s) = FinalScore \<lfloor>score s\<rfloor>"
    and "\<not> frame_requested (checkCollisions s)"
  using evolves_checkCollisions [of s] assms by (simp_all add: evolves_def)

text \<open>
  C10 (as amended). When a collision of a running tick sets \<open>isGameOver\<close>, the tick
  still runs to its end: \<open>animate\<close> is the same composition of phases whatever the
  collision check did, every obstacle of the array gets its visit, the progression is
  advanced with the score, the spawner runs, and the score grows by the tick's distance,
  which the score counter shows. The text of the game-over screen was written by
  \<open>gameOver\<close> before that: it shows the score without the death tick's distance. No
  further frame runs, and a further call of \<open>animate\<close> only requests a frame.
\<close>

theorem death_tick_runs_to_its_end:
  assumes "\<not> isPaused s" and "\<not> isGameOver s"
  shows "animate s =
           (let s6 = checkCollisions (before_collisions s);
                s7 = s6\<lparr>progressionManager := update (score s6) (progressionManager s6)\<rparr>;
                s8 = generateObstacles (frame_delta s) s7;
                s9 = s8\<lparr>score := score s8 + frame_speed s * frame_delta s * 0.1\<rparr>
            in s9\<lparr>score_counter := \<lfloor>score s9\<rfloor>\<rparr>) \<and>
         (\<forall>i. i < length (obstacles (before_collisions s)) \<longrightarrow>
            (\<exists>s1. evolves (before_collisions s) s1 \<and>
               obstacles (checkCollisions (before_collisions s)) ! i =
                 fst (check_obstacle (playerBox (before_collisions s))
                        (obstacles (before_collisions s) ! i) s1))) \<and>
         score (animate s) = score s + frame_speed s * frame_delta s * 0.1 \<and>
         score_counter (animate s) = \<lfloor>score (animate s)\<rfloor> \<and>
         progressionManager (animate s) = update (score s) (progressionManager s) \<and>
         (isGameOver (animate s) \<longrightarrow>
            final_score (animate s) = FinalScore \<lfloor>score s\<rfloor> \<and>
            \<not> frame_requested (animate s) \<and>
            frame (animate s) = animate s \<and>
            animate (animate s) = (animate s)\<lparr>frame_requested := True\<rparr>)"
proof -
  let ?s5 = "before_collisions s"
  let ?s6 = "checkCollisions ?s5"
  note phases = animate_phases [OF assms]
  have visits: "\<forall>i. i < length (obstacles ?s5) \<longrightarrow>
            (\<exists>s1. evolves ?s5 s1 \<and>
               obstacles ?s6 ! i = fst (check_obstacle (playerBox ?s5) (obstacles ?s5 ! i) s1))"
    using checkCollisions_visits [of _ ?s5] by blast
  note sc = animate_score [OF assms]
  note after = animate_after_collisions [OF assms]
  have over: "isGameOver (animate s) \<longrightarrow>
            final_score (animate s) = FinalScore \<lfloor>score s\<rfloor> \<and>
            \<not> frame_requested (animate s) \<and>
            frame (animate s) = animate s \<and>
            animate (animate s) = (animate s)\<lparr>frame_requested := True\<rparr>"
  proof
    assume o: "isGameOver (animate s)"
    with after(1) have "isGameOver ?s6" by simp
    moreover from assms(2) have "\<not> isGameOver ?s5" by (simp add: before_collisions_keeps)
    ultimately have "final_score ?s6 = FinalScore \<lfloor>score ?s5\<rfloor>" and "\<not> frame_requested ?s6"
      by (rule game_over_in_collisions [rotated])+
    then have a: "final_score (animate s) = FinalScore \<lfloor>score s\<rfloor>"
      and b: "\<not> frame_requested (animate s)"
      by (simp_all add: after before_collisions_keeps)
    from b have c: "frame (animate s) = animate s" by (simp add: frame_def)
    from o have d: "animate (animate s) = (animate s)\<lparr>frame_requested := True\<rparr>"
      by (simp add: animate_inert)
    from a b c d show "final_score (animate s) = FinalScore \<lfloor>score s\<rfloor> \<and>
            \<not> frame_requested (animate s) \<and>
            frame (animate s) = animate s \<and>
            animate (animate s) = (animate s)\<lparr>frame_requested := True\<rparr>" by blast
  qed
  from phases visits sc over show ?thesis by blast
qed

lemma death_tick_readings:
  "frame_delta death_tick_example = 1 / 10"
  "frame_elapsed death_tick_example = 6001 / 10"
  "frame_speed death_tick_example = 45"
  by (simp_all add: frame_delta_def frame_elapsed_def frame_speed_def getDelta_def
      getElapsedTime_def death_tick_example_def initial_game_def Let_def
      RUN_SPEED_BASE_def RUN_SPEED_INCREASE_def)

lemma death_tick_running:
  "\<not> isPaused death_tick_example" "\<not> isGameOver death_tick_example"
  "score death_tick_example = 18007 / 10"
  "progressionManager death_tick_example =
     \<lparr>currentStageIndex = 3, currentStage = PROGRESSION_STAGES ! 3\<rparr>"
  by (simp_all add: death_tick_example_def initial_game_def)

lemma death_tick_before_collisions:
  "obstacles (before_collisions death_tick_example) = [wall_at 0 0, wall_at 1 0]"
  "playerBox (before_collisions death_tick_example) =
     \<lparr>bmin = Vector3 (- 4.25) 0.75 (- 0.5), bmax = Vector3 (- 0.25) 2.25 0.5\<rparr>"
proof -
  show "obstacles (before_collisions death_tick_example) = [wall_at 0 0, wall_at 1 0]"
    by (simp add: before_collisions_lists death_tick_readings)
      (simp add: death_tick_example_def initial_game_def move_obstacle_def wall_at_def
        new_mesh_def Vector3_def OBSTACLE_CULL_Z_def)
  have cam: "camera_position (before_collisions death_tick_example) = Vector3 (- 2.25) 1.5 0"
    by (simp add: before_collisions_def Let_def move_world_def updateDebris_def slide_pose_def
        jump_pose_def getElapsedTime_def getDelta_def split_beta death_tick_example_def
        initial_game_def Vector3_def LANES_def LANE_WIDTH_def PLAYER_RUN_HEIGHT_def)
  have "\<not> isSliding (before_collisions death_tick_example)"
    by (simp add: before_collisions_keeps death_tick_example_def initial_game_def)
  with cam show "playerBox (before_collisions death_tick_example) =
     \<lparr>bmin = Vector3 (- 4.25) 0.75 (- 0.5), bmax = Vector3 (- 0.25) 2.25 0.5\<rparr>"
    by (simp add: playerBox_def playerCollisionSize_def setFromCenterAndSize_def Vector3_def
        LANE_WIDTH_def PLAYER_RUN_HEIGHT_def)
qed

lemma check_obstacle_wall:
  assumes "\<not> collided ob" and "\<not> isBreakable ob" and "obstacleType ob = Wall"
    and "intersectsBox pb (setFromObject ob)"
  shows "check_obstacle pb ob s = (ob\<lparr>collided := True\<rparr>, gameOver s)"
  using assms by (simp add: check_obstacle_def)

lemma wall_at_fields:
  "\<not> collided (wall_at lane z)" "\<not> isBreakable (wall_at lane z)"
  "obstacleType (wall_at lane z) = Wall"
  "setFromObject (wall_at lane z) =
     \<lparr>bmin = Vector3 (LANES ! lane - 2) 0 (z - 0.5), bmax = Vector3 (LANES ! lane + 2) 1.5 (z + 0.5)\<rparr>"
  by (simp_all add: wall_at_def new_mesh_def setFromObject_def setFromCenterAndSize_def
      Vector3_def LANE_WIDTH_def)

lemma death_tick_hits:
  "intersectsBox (playerBox (before_collisions death_tick_example)) (setFromObject (wall_at 0 0))"
  "intersectsBox (playerBox (before_collisions death_tick_example)) (setFromObject (wall_at 1 0))"
  by (simp_all add: death_tick_before_collisions wall_at_fields intersectsBox_def Vector3_def
      LANES_def LANE_WIDTH_def)

lemma death_tick_collisions:
  "checkCollisions (before_collisions death_tick_example) =
     (gameOver (gameOver (before_collisions death_tick_example)))
       \<lparr>obstacles := [(wall_at 0 0)\<lparr>collided := True\<rparr>, (wall_at 1 0)\<lparr>collided := True\<rparr>]\<rparr>"
proof -
  let ?s5 = "before_collisions death_tick_example"
  have a: "check_obstacle (playerBox ?s5) (wall_at 0 0) ?s5 =
      ((wall_at 0 0)\<lparr>collided := True\<rparr>, gameOver ?s5)"
    using wall_at_fields(1,2,3) death_tick_hits(1) by (rule check_obstacle_wall)
  have b: "check_obstacle (playerBox ?s5) (wall_at 1 0) (gameOver ?s5) =
      ((wall_at 1 0)\<lparr>collided := True\<rparr>, gameOver (gameOver ?s5))"
    using wall_at_fields(1,2,3) death_tick_hits(2) by (rule check_obstacle_wall)
  have "forEach_obstacle (playerBox ?s5) [wall_at 0 0, wall_at 1 0] ?s5 =
      ([(wall_at 0 0)\<lparr>collided := True\<rparr>, (wall_at 1 0)\<lparr>collided := True\<rparr>],
       gameOver (gameOver ?s5))"
    by (simp only: forEach_obstacle.simps a b Let_def prod.case)
  then show ?thesis
    by (simp only: checkCollisions_eq death_tick_before_collisions(1) fst_conv snd_conv)
qed

lemma death_tick_over:
  "isGameOver (checkCollisions (before_collisions death_tick_example))"
  by (simp add: death_tick_collisions gameOver_def)

lemma death_tick_progression:
  "update (score death_tick_example) (progressionManager death_tick_example) =
     \<lparr>currentStageIndex = 4, currentStage = PROGRESSION_STAGES ! 4\<rparr>"
  by (simp add: death_tick_running update_def PROGRESSION_STAGES_def PHASE_DURATION_SCORE_def)

lemma death_tick_spawn:
  "obstacles (animate death_tick_example) =
     [(wall_at 0 0)\<lparr>collided := True\<rparr>, (wall_at 1 0)\<lparr>collided := True\<rparr>, new_mesh 1 Breakable]"
proof -
  let ?s7 = "(checkCollisions (before_collisions death_tick_example))
       \<lparr>progressionManager := \<lparr>currentStageIndex = 4, currentStage = PROGRESSION_STAGES ! 4\<rparr>\<rparr>"
  have pm4: "type (getStage \<lparr>currentStageIndex = 4, currentStage = PROGRESSION_STAGES ! 4\<rparr>)
      = punch_only"
    "interval (getStage \<lparr>currentStageIndex = 4, currentStage = PROGRESSION_STAGES ! 4\<rparr>) = 30"
    by (simp_all add: getStage_def PROGRESSION_STAGES_def)
  have st: "type (getStage (progressionManager ?s7)) = punch_only"
    "interval (getStage (progressionManager ?s7)) = 30"
    by (simp_all add: pm4)
  have sp: "currentSpeed ?s7 = 45" "timeSinceLastObstacle ?s7 = 6 / 10"
    "rand_src ?s7 = (\<lambda>i. Abs_unit_random (1 / 2))"
    "obstacles ?s7 = [(wall_at 0 0)\<lparr>collided := True\<rparr>, (wall_at 1 0)\<lparr>collided := True\<rparr>]"
    by (simp_all add: death_tick_collisions gameOver_def before_collisions_keeps
        death_tick_readings)
      (simp_all add: before_collisions_def Let_def move_world_def updateDebris_def slide_pose_def
        jump_pose_def getElapsedTime_def getDelta_def split_beta death_tick_example_def
        initial_game_def)
  have kinds: "fst (getObstacleTypeForStage (type (getStage (progressionManager ?s7))) ?s7) =
      Some [Breakable]"
    and same: "snd (getObstacleTypeForStage (type (getStage (progressionManager ?s7))) ?s7) = ?s7"
    by (simp_all only: st getObstacleTypeForStage_def stage_type.case fst_conv snd_conv)
  have "generateObstacles (1 / 10) ?s7 =
      spawn (type (getStage (progressionManager ?s7))) [Breakable]
        ((snd (getObstacleTypeForStage (type (getStage (progressionManager ?s7))) ?s7))
           \<lparr>timeSinceLastObstacle := 0\<rparr>)"
  proof (rule generateObstacles_spawning)
    show "type (getStage (progressionManager ?s7)) \<noteq> warmup" by (simp add: pm4)
    show "\<not> timeSinceLastObstacle ?s7 + 1 / 10
        < interval (getStage (progressionManager ?s7)) / currentSpeed ?s7"
      using sp(1,2) by (simp add: pm4)
    show "fst (getObstacleTypeForStage (type (getStage (progressionManager ?s7))) ?s7) =
        Some [Breakable]" by (rule kinds)
  qed
  then have gen: "generateObstacles (1 / 10) ?s7 =
      spawn punch_only [Breakable] (?s7\<lparr>timeSinceLastObstacle := 0\<rparr>)"
    by (simp add: pm4 getObstacleTypeForStage_state)
  have rs: "rand_src (checkCollisions (before_collisions death_tick_example)) =
      (\<lambda>i. Abs_unit_random (1 / 2))"
    using sp(3) by simp
  have lanes: "spawn_lanes punch_only (?s7\<lparr>timeSinceLastObstacle := 0\<rparr>) = [1]"
    by (simp add: spawn_lanes_def choose_numObstacles_def choose_blockedLanes_def
        Math_random_def rs Rep_example_random laneOptions_def split_beta Let_def)
  have "obstacles (generateObstacles (1 / 10) ?s7) =
      [(wall_at 0 0)\<lparr>collided := True\<rparr>, (wall_at 1 0)\<lparr>collided := True\<rparr>, new_mesh 1 Breakable]"
    using sp(4) lanes by (simp add: gen spawn_eq spawn_type_single)
  then show ?thesis
    by (simp add: animate_after_collisions(4) [OF death_tick_running(1,2)]
        death_tick_progression death_tick_readings)
qed

lemma death_tick_result:
  "isGameOver (animate death_tick_example)"
  "score (animate death_tick_example) = 36023 / 20"
  "score_counter (animate death_tick_example) = 1801"
  "final_score (animate death_tick_example) = FinalScore 1800"
proof -
  note run = death_tick_running(1,2)
  show over: "isGameOver (animate death_tick_example)"
    by (simp add: animate_after_collisions(1) [OF run] death_tick_over)
  show sc: "score (animate death_tick_example) = 36023 / 20"
    by (simp add: animate_score(1) [OF run] death_tick_readings death_tick_running(3))
  show "score_counter (animate death_tick_example) = 1801"
    by (simp add: animate_score(2) [OF run] sc)
  have "\<not> isGameOver (before_collisions death_tick_example)"
    by (simp add: before_collisions_keeps run)
  then have "final_score (checkCollisions (before_collisions death_tick_example)) =
      FinalScore \<lfloor>score (before_collisions death_tick_example)\<rfloor>"
    using death_tick_over by (rule game_over_in_collisions(1))
  then show "final_score (animate death_tick_example) = FinalScore 1800"
    by (simp add: animate_after_collisions(2) [OF run] before_collisions_keeps
        death_tick_running(3))
qed

theorem death_tick_runs_to_its_end_witness:
  "\<not> isPaused death_tick_example \<and> \<not> isGameOver death_tick_example \<and>
   isGameOver (animate death_tick_example) \<and>
   score (animate death_tick_example) = score death_tick_example + 45 * (1 / 10) * (1 / 10) \<and>
   progressionManager (animate death_tick_example) =
     \<lparr>currentStageIndex = 4, currentStage = PROGRESSION_STAGES ! 4\<rparr> \<and>
   obstacles (animate death_tick_example) =
     [(wall_at 0 0)\<lparr>collided := True\<rparr>, (wall_at 1 0)\<lparr>collided := True\<rparr>,
      new_mesh 1 Breakable] \<and>
   final_score (animate death_tick_example) = FinalScore \<lfloor>score death_tick_example\<rfloor> \<and>
   \<not> frame_requested (animate death_tick_example) \<and>
   frame (animate death_tick_example) = animate death_tick_example"
proof -
  note t = death_tick_runs_to_its_end [OF death_tick_running(1,2)]
  note sc = t [THEN conjunct2, THEN conjunct2, THEN conjunct1]
  note pm = t [THEN conjunct2, THEN conjunct2, THEN conjunct2, THEN conjunct2, THEN conjunct1]
  note over = t [THEN conjunct2, THEN conjunct2, THEN conjunct2, THEN conjunct2, THEN conjunct2,
      THEN mp, OF death_tick_result(1)]
  have 1: "score (animate death_tick_example) = score death_tick_example + 45 * (1 / 10) * (1 / 10)"
    using sc by (simp only: death_tick_readings)
  have 2: "progressionManager (animate death_tick_example) =
     \<lparr>currentStageIndex = 4, currentStage = PROGRESSION_STAGES ! 4\<rparr>"
    using pm by (simp only: death_tick_progression)
  from death_tick_running(1,2) death_tick_result(1) 1 2 death_tick_spawn over
  show ?thesis by blast
qed

text \<open>
  C10 as stated fails in its last part: after the death tick the game-over screen shows
  1800, the score before the tick's distance was added; the score itself is 1801.15.
\<close>

theorem final_score_text_excludes_death_tick:
  "\<not> isPaused death_tick_example \<and> \<not> isGameOver death_tick_example \<and>
   isGameOver (animate death_tick_example) \<and>
   score (animate death_tick_example) = 1801.15 \<and>
   score_counter (animate death_tick_example) = 1801 \<and>
   final_score (animate death_tick_example) = FinalScore 1800 \<and>
   final_score (animate death_tick_example) \<noteq> FinalScore \<lfloor>score (animate death_tick_example)\<rfloor>"
proof -
  have sc: "score (animate death_tick_example) = 1801.15"
    by (simp add: death_tick_result(2))
  have "\<lfloor>score (animate death_tick_example)\<rfloor> = 1801"
    by (simp add: death_tick_result(2))
  then have "final_score (animate death_tick_example)
      \<noteq> FinalScore \<lfloor>score (animate death_tick_example)\<rfloor>"
    by (simp add: death_tick_result(4))
  with death_tick_running(1,2) death_tick_result(1,3,4) sc show ?thesis by blast
qed

subsection \<open>Ten warmup ticks\<close>

lemma running_readings:
  assumes "running (clock s)"
  shows "frame_delta s = (now s - oldTime (clock s)) / 1000"
    and "frame_elapsed s = elapsedTime (clock s) + (now s - oldTime (clock s)) / 1000"
    and "clock (before_collisions s) =
           (clock s)\<lparr>oldTime := now s,
                     elapsedTime := elapsedTime (clock s) + (now s - oldTime (clock s)) / 1000\<rparr>"
  using assms
  by (simp_all add: frame_delta_def frame_elapsed_def before_collisions_def getDelta_def
      getElapsedTime_def Let_def move_world_keeps slide_pose_keeps jump_pose_keeps)

lemma checkCollisions_empty:
  assumes "obstacles s = []"
  shows "checkCollisions s = s"
  using assms by (simp add: checkCollisions_eq)

lemma warmup_stage: "type (getStage new_ProgressionManager) = warmup"
  by (simp add: getStage_def new_ProgressionManager_def PROGRESSION_STAGES_def)

lemma update_warmup:
  assumes "sc < 450"
  shows "update sc new_ProgressionManager = new_ProgressionManager"
  using assms
  by (simp add: update_def new_ProgressionManager_def PROGRESSION_STAGES_def
      PHASE_DURATION_SCORE_def)

lemma animate_empty_warmup:
  assumes "\<not> isPaused s" and "\<not> isGameOver s" and "obstacles s = []"
    and "progressionManager s = new_ProgressionManager" and "score s < 450"
  shows "animate s =
     (before_collisions s)
       \<lparr>score := score s + frame_speed s * frame_delta s * 0.1,
        score_counter := \<lfloor>score s + frame_speed s * frame_delta s * 0.1\<rfloor>\<rparr>"
proof -
  let ?s5 = "before_collisions s"
  have "obstacles ?s5 = []" by (simp add: before_collisions_lists assms(3))
  then have c: "checkCollisions ?s5 = ?s5" by (rule checkCollisions_empty)
  have pm: "progressionManager ?s5 = new_ProgressionManager"
    by (simp add: before_collisions_keeps assms(4))
  have u: "?s5\<lparr>progressionManager := update (score ?s5) (progressionManager ?s5)\<rparr> = ?s5"
    using update_warmup [OF assms(5)] by (simp add: before_collisions_keeps pm assms(4))
  have g: "generateObstacles (frame_delta s) ?s5 = ?s5"
    by (rule generateObstacles_warmup) (simp add: pm warmup_stage)
  show ?thesis
    by (simp only: animate_phases [OF assms(1,2)] Let_def c u g)
      (simp add: before_collisions_keeps)
qed

lemma idle_warmup_frame:
  assumes "idle_warmup e sc (s\<lparr>frame_requested := True\<rparr>)" and "sc < 450"
  shows "idle_warmup e sc (animate s)"
proof -
  from assms(1) have s: "\<not> isPaused s" "\<not> isGameOver s" "\<not> isJumping s" "\<not> isSliding s"
    "obstacles s = []" "debrisParticles s = []" "timers s = []"
    "progressionManager s = new_ProgressionManager"
    "running (clock s)" "oldTime (clock s) = now s" "elapsedTime (clock s) = e" "score s = sc"
    by (simp_all add: idle_warmup_def)
  from assms(2) s(12) have "score s < 450" by simp
  note eq = animate_empty_warmup [OF s(1,2,5,8) this]
  have d: "frame_delta s = 0" using running_readings(1) [OF s(9)] s(10) by simp
  have "clock (animate s) = clock s"
    using running_readings(3) [OF s(9)] s(10) by (simp add: eq)
  with s d show ?thesis
    by (simp add: idle_warmup_def eq before_collisions_keeps before_collisions_lists)
qed

lemma idle_warmup_tick:
  assumes "idle_warmup e sc s" and "sc < 450"
  shows "idle_warmup (e + ms / 1000)
           (sc + (RUN_SPEED_BASE + of_int \<lfloor>(e + ms / 1000) / 10\<rfloor> * RUN_SPEED_INCREASE)
                   * (ms / 1000) * 0.1)
           (tick_after ms s) \<and>
         currentSpeed (tick_after ms s) =
           RUN_SPEED_BASE + of_int \<lfloor>(e + ms / 1000) / 10\<rfloor> * RUN_SPEED_INCREASE \<and>
         score_counter (tick_after ms s) = \<lfloor>score (tick_after ms s)\<rfloor>"
proof -
  from assms(1) have s: "\<not> isPaused s" "\<not> isGameOver s" "\<not> isJumping s" "\<not> isSliding s"
    "obstacles s = []" "debrisParticles s = []" "timers s = []" "frame_requested s"
    "progressionManager s = new_ProgressionManager"
    "running (clock s)" "oldTime (clock s) = now s" "elapsedTime (clock s) = e" "score s = sc"
    by (simp_all add: idle_warmup_def)
  let ?s1 = "s\<lparr>now := now s + ms\<rparr>"
  have el: "elapse ms s = ?s1"
    by (simp add: elapse_def fire_timers_def s(7))
  let ?s2 = "?s1\<lparr>frame_requested := False\<rparr>"
  have fr: "tick_after ms s = animate ?s2"
    by (simp add: tick_after_def frame_def el s(8))
  have run: "running (clock ?s2)" by (simp add: s(10))
  have d: "frame_delta ?s2 = ms / 1000" "frame_elapsed ?s2 = e + ms / 1000"
    using running_readings(1,2) [OF run] by (simp_all add: s(11,12))
  have sp: "frame_speed ?s2 =
      RUN_SPEED_BASE + of_int \<lfloor>(e + ms / 1000) / 10\<rfloor> * RUN_SPEED_INCREASE"
    by (simp add: frame_speed_def d)
  have eq: "animate ?s2 =
     (before_collisions ?s2)
       \<lparr>score := score ?s2 + frame_speed ?s2 * frame_delta ?s2 * 0.1,
        score_counter := \<lfloor>score ?s2 + frame_speed ?s2 * frame_delta ?s2 * 0.1\<rfloor>\<rparr>"
    by (rule animate_empty_warmup) (simp_all add: s assms(2))
  have ck: "clock (animate ?s2) =
      (clock s)\<lparr>oldTime := now s + ms, elapsedTime := e + ms / 1000\<rparr>"
    using running_readings(3) [OF run] by (simp add: eq s(11,12))
  show ?thesis
    using s ck
    by (simp add: fr idle_warmup_def eq before_collisions_keeps before_collisions_lists d sp)
qed

lemma fresh_session_idle: "idle_warmup 0 0 (fresh_session t rnd)"
proof -
  let ?s0 = "(clock_start (initial_game t rnd))\<lparr>frame_requested := False\<rparr>"
  have "idle_warmup 0 0 (?s0\<lparr>frame_requested := True\<rparr>)"
    by (simp add: idle_warmup_def clock_start_def initial_game_def)
  then have "idle_warmup 0 0 (animate ?s0)"
    by (rule idle_warmup_frame) simp
  then show ?thesis
    by (simp add: fresh_session_def initGame_def startGameLoop_def)
qed

lemma warmup_ticks:
  "n \<le> 9 \<Longrightarrow>
   idle_warmup (real n) (1.5 * real n) ((tick_after 1000 ^^ n) (fresh_session t rnd))"
proof (induction n)
  case 0
  show ?case using fresh_session_idle [of t rnd] by simp
next
  case (Suc n)
  then have n: "n \<le> 8" and
    ih: "idle_warmup (real n) (1.5 * real n) ((tick_after 1000 ^^ n) (fresh_session t rnd))"
    by simp_all
  from n have sc: "1.5 * real n < 450" by simp
  from n have fl: "\<lfloor>(real n + 1000 / 1000) / 10\<rfloor> = 0" by (simp add: floor_eq_iff)
  define e' where "e' = real n + 1000 / 1000"
  define sc' where "sc' = 1.5 * real n
      + (RUN_SPEED_BASE + of_int \<lfloor>e' / 10\<rfloor> * RUN_SPEED_INCREASE) * (1000 / 1000) * 0.1"
  from idle_warmup_tick [OF ih sc, of 1000]
  have "idle_warmup e' sc' (tick_after 1000 ((tick_after 1000 ^^ n) (fresh_session t rnd)))"
    unfolding e'_def sc'_def by (rule conjunct1)
  moreover have "e' = real (Suc n)" by (simp add: e'_def)
  moreover have "sc' = 1.5 * real (Suc n)"
    using fl by (simp add: sc'_def e'_def RUN_SPEED_BASE_def algebra_simps)
  ultimately have "idle_warmup (real (Suc n)) (1.5 * real (Suc n))
      (tick_after 1000 ((tick_after 1000 ^^ n) (fresh_session t rnd)))"
    by simp
  then show ?case by simp
qed

lemma ten_ticks:
  "idle_warmup 10 15.05 ((tick_after 1000 ^^ 10) (fresh_session t rnd)) \<and>
   currentSpeed ((tick_after 1000 ^^ 10) (fresh_session t rnd)) = 15.5 \<and>
   score_counter ((tick_after 1000 ^^ 10) (fresh_session t rnd)) = 15 \<and>
   score ((tick_after 1000 ^^ 9) (fresh_session t rnd)) = 13.5"
proof -
  let ?s9 = "(tick_after 1000 ^^ 9) (fresh_session t rnd)"
  have nine: "idle_warmup 9 13.5 ?s9"
    using warmup_ticks [of 9 t rnd] by simp
  have ten: "(tick_after 1000 ^^ 10) (fresh_session t rnd) = tick_after 1000 ?s9"
    by (simp add: eval_nat_numeral)
  have "(13.5::real) < 450" by simp
  note tick = idle_warmup_tick [OF nine this, of 1000]
  from tick have idle: "idle_warmup 10 15.05 (tick_after 1000 ?s9)"
    by (simp add: RUN_SPEED_BASE_def RUN_SPEED_INCREASE_def)
  from tick have speed: "currentSpeed (tick_after 1000 ?s9) = 15.5"
    by (simp add: RUN_SPEED_BASE_def RUN_SPEED_INCREASE_def)
  from idle have sc: "score (tick_after 1000 ?s9) = 15.05"
    by (simp add: idle_warmup_def)
  from tick have "score_counter (tick_after 1000 ?s9) = \<lfloor>score (tick_after 1000 ?s9)\<rfloor>"
    by (rule conjunct2 [THEN conjunct2])
  then have counter: "score_counter (tick_after 1000 ?s9) = 15"
    by (simp add: sc)
  from nine have "score ?s9 = 13.5" by (simp add: idle_warmup_def)
  with idle speed counter show ?thesis by (simp only: ten)
qed

text \<open>
  C4 (as amended). In a fresh session, after ten ticks that come one second apart, with
  no input and nothing on the road, the score is \<open>9 * 1.5 + 1.55 = 15.05\<close>: the clock
  has reached 10 s at the tenth tick, whose speed is therefore 15.5. After nine ticks
  the score is 13.5. The score counter shows 15, and the stage is still the warmup.
\<close>

theorem ten_warmup_ticks_score:
  "score ((tick_after 1000 ^^ 10) (fresh_session t rnd)) = 15.05 \<and>
   score ((tick_after 1000 ^^ 9) (fresh_session t rnd)) = 13.5 \<and>
   currentSpeed ((tick_after 1000 ^^ 10) (fresh_session t rnd)) = 15.5 \<and>
   score_counter ((tick_after 1000 ^^ 10) (fresh_session t rnd)) = 15 \<and>
   elapsedTime (clock ((tick_after 1000 ^^ 10) (fresh_session t rnd))) = 10 \<and>
   type (getStage (progressionManager ((tick_after 1000 ^^ 10) (fresh_session t rnd)))) = warmup \<and>
   obstacles ((tick_after 1000 ^^ 10) (fresh_session t rnd)) = []"
  using ten_ticks [of t rnd] by (simp add: idle_warmup_def warmup_stage)

theorem ten_warmup_ticks_score_witness:
  "score ((tick_after 1000 ^^ 10) (fresh_session 0 (\<lambda>i. Abs_unit_random 0))) = 15.05 \<and>
   type (getStage (progressionManager
     ((tick_after 1000 ^^ 10) (fresh_session 0 (\<lambda>i. Abs_unit_random 0))))) = warmup"
  using ten_warmup_ticks_score [of 0 "\<lambda>i. Abs_unit_random 0"] by simp

text \<open>C4 as stated fails: the score after the ten ticks is not 15.\<close>

theorem ten_warmup_ticks_score_not_15:
  "score ((tick_after 1000 ^^ 10) (fresh_session 0 (\<lambda>i. Abs_unit_random 0))) \<noteq> 15"
  using ten_ticks [of 0 "\<lambda>i. Abs_unit_random 0"] by (simp add: idle_warmup_def)

subsection \<open>Timers and pause\<close>

lemma run_callback_fields:
  "isPaused (run_callback cb s) = isPaused s"
  "isSliding (run_callback cb s) = (isSliding s \<and> cb \<noteq> SlideEnd)"
  by (cases cb; simp add: run_callback_def)+

lemma foldl_run_callback_fields:
  "isPaused (foldl (\<lambda>s' tm. run_callback (snd tm) s') s tms) = isPaused s \<and>
   isSliding (foldl (\<lambda>s' tm. run_callback (snd tm) s') s tms) =
     (isSliding s \<and> \<not> list_ex (\<lambda>tm. snd tm = SlideEnd) tms)"
proof (induction tms arbitrary: s)
  case Nil
  show ?case by simp
next
  case (Cons tm tms)
  from Cons.IH [of "run_callback (snd tm) s"] show ?case
    by (auto simp add: run_callback_fields)
qed

lemma fire_timers_fields:
  "isPaused (fire_timers s) = isPaused s \<and>
   isSliding (fire_timers s) =
     (isSliding s \<and> \<not> list_ex (\<lambda>tm. snd tm = SlideEnd \<and> fst tm \<le> now s) (timers s))"
proof -
  have "list_ex (\<lambda>tm. snd tm = SlideEnd) (sort_key fst (filter (is_due (now s)) (timers s))) =
        list_ex (\<lambda>tm. snd tm = SlideEnd \<and> fst tm \<le> now s) (timers s)"
    by (force simp add: list_ex_iff is_due_def)
  then show ?thesis
    by (simp add: fire_timers_def foldl_run_callback_fields)
qed

text \<open>
  C9 (what the code does instead). Real time that passes never changes \<open>isPaused\<close>,
  and it clears \<open>isSliding\<close> as soon as a slide-end timer has come due, whether the
  game is paused or not.
\<close>

theorem slide_timer_ignores_pause:
  "isPaused (elapse ms s) = isPaused s \<and>
   (list_ex (\<lambda>tm. snd tm = SlideEnd \<and> fst tm \<le> now s + ms) (timers s) \<longrightarrow>
      \<not> isSliding (elapse ms s))"
  using fire_timers_fields [of "s\<lparr>now := now s + ms\<rparr>"]
  by (simp add: elapse_def)

lemma slide_starts:
  assumes "\<not> isJumping s" and "\<not> isSliding s" and "\<not> isGameOver s"
  shows "isSliding (slide s)" and "timers (slide s) = timers s @ [(now s + 1000, SlideEnd)]"
    and "now (slide s) = now s" and "isPaused (slide s) = isPaused s"
  using assms
  by (simp_all add: slide_def setTimeout_def split_beta getElapsedTime_keeps)

lemma paused_mid_slide_facts:
  "isPaused paused_mid_slide" "isSliding paused_mid_slide"
  "timers paused_mid_slide = [(1000, SlideEnd)]" "now paused_mid_slide = 100"
proof -
  let ?s0 = "fresh_session 0 (\<lambda>i. Abs_unit_random 0)"
  from fresh_session_idle [of 0 "\<lambda>i. Abs_unit_random 0"]
  have f: "\<not> isJumping ?s0" "\<not> isSliding ?s0" "\<not> isGameOver ?s0" "\<not> isPaused ?s0"
    "timers ?s0 = []" "oldTime (clock ?s0) = now ?s0"
    by (simp_all add: idle_warmup_def)
  have n: "now ?s0 = 0"
    by (simp add: fresh_session_def initGame_def startGameLoop_def clock_start_def
        initial_game_def animate_empty_warmup before_collisions_keeps)
  note sl = slide_starts [OF f(1,2,3)]
  let ?s1 = "slide ?s0"
  have e: "elapse 100 ?s1 = ?s1\<lparr>now := 100\<rparr>"
    by (simp add: elapse_def fire_timers_def sl f(5) n is_due_def)
  show "isPaused paused_mid_slide" "isSliding paused_mid_slide"
    "timers paused_mid_slide = [(1000, SlideEnd)]" "now paused_mid_slide = 100"
    by (simp_all add: paused_mid_slide_def pause_button_click_def Let_def e sl f n)
qed

theorem slide_timer_ignores_pause_witness:
  "isPaused paused_mid_slide \<and> isSliding paused_mid_slide \<and>
   list_ex (\<lambda>tm. snd tm = SlideEnd \<and> fst tm \<le> now paused_mid_slide + 1000)
     (timers paused_mid_slide) \<and>
   isPaused (elapse 1000 paused_mid_slide) \<and>
   \<not> isSliding (elapse 1000 paused_mid_slide)"
  using slide_timer_ignores_pause [of 1000 paused_mid_slide]
  by (simp add: paused_mid_slide_facts)

subsection \<open>Restart\<close>

lemma resetGame_eq: "resetGame s = animate (reset_state s)"
  by (simp add: resetGame_def reset_state_def startGameLoop_def Let_def)

lemma reset_state_fields:
  "\<not> isPaused (reset_state s)" "\<not> isGameOver (reset_state s)"
  "obstacles (reset_state s) = []" "debrisParticles (reset_state s) = []"
  "progressionManager (reset_state s) = new_ProgressionManager"
  "score (reset_state s) = 0" "currentLane (reset_state s) = 1"
  "isSliding (reset_state s) = isSliding s" "isPunching (reset_state s) = isPunching s"
  "isJumping (reset_state s) = isJumping s" "jumpStartTime (reset_state s) = jumpStartTime s"
  "timers (reset_state s) = timers s"
  "running (clock (reset_state s))" "oldTime (clock (reset_state s)) = now (reset_state s)"
  "elapsedTime (clock (reset_state s)) = 0"
  by (simp_all add: reset_state_def clock_start_def)

lemma resetGame_frame:
  "resetGame s = (before_collisions (reset_state s))\<lparr>score := 0, score_counter := 0\<rparr>"
  "frame_elapsed (reset_state s) = 0"
proof -
  note f = reset_state_fields [of s]
  have d: "frame_delta (reset_state s) = 0"
    using running_readings(1) [OF f(13)] f(14) by simp
  show "frame_elapsed (reset_state s) = 0"
    using running_readings(2) [OF f(13)] f(14,15) by simp
  have "score (reset_state s) < 450" by (simp add: f(6))
  note animate_empty_warmup [OF f(1,2,3,5) this]
  then show "resetGame s = (before_collisions (reset_state s))\<lparr>score := 0, score_counter := 0\<rparr>"
    by (simp add: resetGame_eq d f(6))
qed

text \<open>
  C5 (what the code does). A restart sets the score to 0, the stage index to 0, empties
  the obstacle and debris arrays and puts the player in lane 1, but it leaves the flags
  \<open>isSliding\<close> and \<open>isPunching\<close> and the pending timers as they were, and it
  leaves \<open>isJumping\<close> set when a jump was under way (the jump having started at a
  clock time above \<open>- JUMP_DURATION\<close>, as every jump has).
\<close>

theorem resetGame_keeps_action_flags:
  "score (resetGame s) = 0 \<and>
   currentStageIndex (progressionManager (resetGame s)) = 0 \<and>
   obstacles (resetGame s) = [] \<and> debrisParticles (resetGame s) = [] \<and>
   currentLane (resetGame s) = 1 \<and>
   \<not> isGameOver (resetGame s) \<and> \<not> isPaused (resetGame s) \<and>
   isSliding (resetGame s) = isSliding s \<and>
   isPunching (resetGame s) = isPunching s \<and>
   timers (resetGame s) = timers s \<and>
   isJumping (resetGame s) = (isJumping s \<and> - jumpStartTime s < JUMP_DURATION)"
  by (simp add: resetGame_frame before_collisions_keeps before_collisions_lists
      reset_state_fields new_ProgressionManager_def)

lemma died_mid_jump_camera:
  "vy (camera_position (resetGame died_mid_jump)) = - 1830.18"
  by (simp add: resetGame_frame(1))
    (simp add: before_collisions_def Let_def move_world_def updateDebris_def slide_pose_def
      jump_pose_def getElapsedTime_def getDelta_def split_beta reset_state_def clock_start_def
      died_mid_jump_def initial_game_def Vector3_def JUMP_DURATION_def JUMP_HEIGHT_def
      PLAYER_RUN_HEIGHT_def frame_elapsed_def frame_delta_def frame_speed_def)

theorem resetGame_keeps_action_flags_witness:
  "isGameOver died_mid_jump \<and> isJumping died_mid_jump \<and>
   score (resetGame died_mid_jump) = 0 \<and>
   obstacles (resetGame died_mid_jump) = [] \<and>
   currentLane (resetGame died_mid_jump) = 1 \<and>
   \<not> isGameOver (resetGame died_mid_jump) \<and>
   isJumping (resetGame died_mid_jump) \<and>
   vy (camera_position (resetGame died_mid_jump)) = - 1830.18"
  using resetGame_keeps_action_flags [of died_mid_jump] died_mid_jump_camera
  by (simp add: died_mid_jump_def initial_game_def JUMP_DURATION_def)

subsection \<open>The jump arc along a run\<close>




lemma jump_refused: "isJumping s \<Longrightarrow> jump s = s"
  by (simp add: jump_def)





































end
